theory Spec2Isabelle
  imports Main "HOL-Library.Word"
begin

unbundle bit_operations_syntax

section \<open>The Defender metrics collector\<close>

text \<open>
  A shallow embedding of \<^verbatim>\<open>aws_iot_defender_collector.c\<close>. The collector builds
  one report by driving a structured encoder twice: a dry pass against a null buffer to
  learn the size, then a real pass into a buffer of that size. The control flow of the
  collector never depends on what the encoder answers, except that every answer is
  asserted; so one pass is modelled in two layers: the sequence of encoder calls that
  the collector makes (a list of \<open>enc_call\<close>, cut short where the C code would trap),
  and the encoder consuming that sequence, with the assertion after every call.
\<close>

subsection \<open>Platform configuration\<close>

text \<open>
  The constants below come from headers that are not part of the sources
  (\<^verbatim>\<open>FreeRTOSConfig.h\<close>, \<^verbatim>\<open>aws_iot_defender.h\<close>); they are parameters of the
  model. The four masks are the sub-flags of the TCP-connections group.
\<close>

record config =
  configMAX_TASK_NAME_LEN :: nat
  configPLATFORM_NAME :: string
  TCP_CONNECTIONS_ESTABLISHED :: "32 word"
  TCP_CONNECTIONS_ESTABLISHED_CONNECTIONS :: "32 word"
  TCP_CONNECTIONS_ESTABLISHED_TOTAL :: "32 word"
  TCP_CONNECTIONS_ESTABLISHED_REMOTE_ADDR :: "32 word"

text \<open>
  Modelled from the spec: the enumeration of metrics groups is declared in a header
  that is not part of the sources. The spec names two groups, network connections and
  kernel run-time statistics, and the dispatch in \<^verbatim>\<open>_serialize\<close> has exactly these
  two cases.
\<close>

definition AWS_IOT_DEFENDER_METRICS_TCP_CONNECTIONS :: nat where
  "AWS_IOT_DEFENDER_METRICS_TCP_CONNECTIONS = 0"

definition AWS_IOT_DEFENDER_METRICS_TASK_RUNTIME_STAT :: nat where
  "AWS_IOT_DEFENDER_METRICS_TASK_RUNTIME_STAT = 1"

definition DEFENDER_METRICS_GROUP_COUNT :: nat where
  "DEFENDER_METRICS_GROUP_COUNT = 2"

subsection \<open>Statistics sources\<close>

record TaskStatus =
  xTaskNumber :: nat
  pcTaskName :: string
  eCurrentState :: nat
  uxCurrentPriority :: nat
  ulRunTimeCounter :: "32 word"
  usStackHighWaterMark :: nat

record HeapStats =
  xAvailableHeapSpaceInBytes :: nat
  xSizeOfLargestFreeBlockInBytes :: nat
  xSizeOfSmallestFreeBlockInBytes :: nat
  xNumberOfFreeBlocks :: nat
  xMinimumEverFreeBytesRemaining :: nat
  xNumberOfSuccessfulAllocations :: nat
  xNumberOfSuccessfulFrees :: nat

record IotMetricsTcpConnection =
  pRemoteAddress :: string

text \<open>
  What one pass reads from the statistics sources: the list handed to the callback of
  \<^verbatim>\<open>IotMetrics_GetTcpConnections\<close>, the task array and the total run time filled in by
  \<^verbatim>\<open>uxTaskGetSystemState\<close>, and the record filled in by \<^verbatim>\<open>vPortGetHeapStats\<close>.
  The two scratch allocations of \<^verbatim>\<open>_serializeKernelRuntimeStats\<close> are taken to
  succeed.
\<close>

record statistics =
  tcpConnections :: "IotMetricsTcpConnection list"
  pxTaskStatusArray :: "TaskStatus list"
  ulTotalTime :: "32 word"
  pxHeapStatus :: HeapStats

subsection \<open>Encoder calls\<close>

text \<open>
  How a pass can end early: an \<^verbatim>\<open>AwsIotDefender_Assert\<close> that fails stops the program,
  and an integer division by zero is undefined in C.
\<close>

datatype fault = AssertFailed | DivideByZero

datatype tag =
    HEADER_TAG | REPORTID_TAG | VERSION_TAG | METRICS_TAG
  | TCP_CONN_TAG | EST_CONN_TAG | TOTAL_TAG | CONN_TAG | REMOTE_ADDR_TAG
  | KERNEL_METIRCS | KERNEL_MCU_UPTIME | KERNEL_MCU_UTILIZATION
  | KERNEL_HEAP_FREE_SIZE | KERNEL_HEAP_LARGEST_FREE | KERNEL_HEAP_SMALLEST_FREE
  | KERNEL_HEAP_NUM_OF_FREE | KERNEL_HEAP_LOW_WATERMARK
  | KERNEL_HEAP_SUCCESSFUL_ALLOC | KERNEL_HEAP_SUCCESSFUL_FREE
  | KERNEL_NUM_OF_TASKS | KERNEL_TASK_DETAILS
  | KERNEL_TASK_ID | KERNEL_TASK_NAME | KERNEL_TASK_STATUS | KERNEL_TASK_PRIORITY
  | KERNEL_TASK_ABS_CYCLES | KERNEL_TASK_PERCENTAGE | KERNEL_STACK_HIGH_WATERMARK
  | DEVICE_TYPE

text \<open>The encoder objects of the C code, by the name of the variable that holds them.\<close>

datatype encoder_var =
    pEncoderObject | reportMap | headerMap | metricsMap
  | tcpConnectionMap | establishedMap | connectionsArray | connectionMap
  | mcuUptimeMap | taskDetailsArray | taskEntryMap

datatype container = CONTAINER_STREAM | CONTAINER_MAP | CONTAINER_ARRAY

datatype scalar = ScalarSignedInt int | ScalarTextString string

text \<open>
  One constructor per entry of \<^verbatim>\<open>_defenderEncoder\<close> that a pass calls between
  \<^verbatim>\<open>init\<close> and the end of \<^verbatim>\<open>_serialize\<close>. An open call names the parent, the
  child, the kind the child was initialised with and the declared number of children.
\<close>

datatype enc_call =
    OpenContainer encoder_var encoder_var container nat
  | OpenContainerWithKey encoder_var tag encoder_var container nat
  | AppendKeyValue encoder_var tag scalar
  | CloseContainer encoder_var encoder_var

subsection \<open>Idle-task name filter\<close>

definition TASK_NAME_EQUAL :: "8 word" where
  "TASK_NAME_EQUAL = 1"

definition TASK_NAME_NOT_EQUAL :: "8 word" where
  "TASK_NAME_NOT_EQUAL = 0"

definition idleName :: string where
  "idleName = ''IDLE''"

text \<open>
  A C string is modelled by its characters before the terminator; \<open>c_char_at s i\<close> is
  \<^verbatim>\<open>s[i]\<close>, which is the terminator at \<open>i = length s\<close>. The loop below leaves at the
  first terminator of either string, so it reads no position after it, and
  \<open>index\<close> stays below 5, far from the range of \<^verbatim>\<open>uint8_t\<close>.
\<close>

definition c_char_at :: "string \<Rightarrow> nat \<Rightarrow> char" where
  "c_char_at s i = (if i < length s then s ! i else CHR 0x00)"

function taskNameFilterIdle_loop :: "nat \<Rightarrow> string \<Rightarrow> nat \<Rightarrow> 8 word" where
  "taskNameFilterIdle_loop maxlen strA index =
     (if index < maxlen then
        (if c_char_at strA index = CHR 0x00 \<and> c_char_at idleName index = CHR 0x00
         then TASK_NAME_EQUAL
         else if c_char_at strA index = CHR 0x00 \<or> c_char_at idleName index = CHR 0x00
                 \<or> c_char_at strA index \<noteq> c_char_at idleName index
         then TASK_NAME_NOT_EQUAL
         else taskNameFilterIdle_loop maxlen strA (Suc index))
      else TASK_NAME_NOT_EQUAL)"
  by pat_completeness auto
termination
  by (relation "measure (\<lambda>(maxlen, strA, index). maxlen - index)") auto

definition taskNameFilterIdle :: "config \<Rightarrow> string \<Rightarrow> 8 word" where
  "taskNameFilterIdle cfg strA = taskNameFilterIdle_loop (configMAX_TASK_NAME_LEN cfg) strA 0"

subsection \<open>Schema encoder of the TCP-connections group\<close>

text \<open>The body of the \<^verbatim>\<open>IotContainers_ForEach\<close> loop, once per connection in list order.\<close>

fun connections_loop :: "nat \<Rightarrow> IotMetricsTcpConnection list \<Rightarrow> enc_call list" where
  "connections_loop hasRemoteAddr [] = []"
| "connections_loop hasRemoteAddr (pMetricsTcpConnection # rest) =
     [OpenContainer connectionsArray connectionMap CONTAINER_MAP hasRemoteAddr]
     @ (if hasRemoteAddr \<noteq> 0
        then [AppendKeyValue connectionMap REMOTE_ADDR_TAG
                (ScalarTextString (pRemoteAddress pMetricsTcpConnection))]
        else [])
     @ [CloseContainer connectionsArray connectionMap]
     @ connections_loop hasRemoteAddr rest"

text \<open>
  The four \<^verbatim>\<open>uint8_t\<close> flags hold 0 or 1; their sum is the child count handed to
  the open call of the established map.
\<close>

definition serializeTcpConnections ::
  "config \<Rightarrow> (nat \<Rightarrow> 32 word) \<Rightarrow> IotMetricsTcpConnection list \<Rightarrow> enc_call list" where
  "serializeTcpConnections cfg flagSnapshot pTcpConnectionsMetricsList =
     (let total = length pTcpConnectionsMetricsList;
          tcpConnFlag = flagSnapshot AWS_IOT_DEFENDER_METRICS_TCP_CONNECTIONS;
          hasEstablishedConnections =
            (of_bool (0 < tcpConnFlag AND TCP_CONNECTIONS_ESTABLISHED cfg) :: nat);
          hasConnections =
            (of_bool (0 < tcpConnFlag AND TCP_CONNECTIONS_ESTABLISHED_CONNECTIONS cfg
                      \<and> 0 < total) :: nat);
          hasTotal =
            (of_bool (0 < tcpConnFlag AND TCP_CONNECTIONS_ESTABLISHED_TOTAL cfg) :: nat);
          hasRemoteAddr =
            (of_bool (0 < tcpConnFlag AND TCP_CONNECTIONS_ESTABLISHED_REMOTE_ADDR cfg) :: nat)
      in [OpenContainerWithKey metricsMap TCP_CONN_TAG tcpConnectionMap CONTAINER_MAP 1]
         @ (if hasEstablishedConnections \<noteq> 0 then
              [OpenContainerWithKey tcpConnectionMap EST_CONN_TAG establishedMap CONTAINER_MAP
                 (hasConnections + hasTotal)]
              @ (if hasConnections \<noteq> 0 then
                   [OpenContainerWithKey establishedMap CONN_TAG connectionsArray
                      CONTAINER_ARRAY total]
                   @ connections_loop hasRemoteAddr pTcpConnectionsMetricsList
                   @ [CloseContainer establishedMap connectionsArray]
                 else [])
              @ (if hasTotal \<noteq> 0 then
                   [AppendKeyValue establishedMap TOTAL_TAG (ScalarSignedInt (int total))]
                 else [])
              @ [CloseContainer tcpConnectionMap establishedMap]
            else [])
         @ [CloseContainer metricsMap tcpConnectionMap])"

subsection \<open>Schema encoder of the kernel run-time statistics group\<close>

text \<open>
  One iteration of the task loop: the calls made, the value of \<^verbatim>\<open>ulIdleTime\<close>
  afterwards, and the fault if the iteration traps (\<open>totalTime\<close> is the local
  \<^verbatim>\<open>ulTotalTime\<close>). The quotient
  \<^verbatim>\<open>ulRunTimeCounter / ( ulTotalTime / 100 )\<close> is unsigned 32-bit division and is
  evaluated after the first five fields are appended; a zero divisor is a fault.
\<close>

definition task_entry ::
  "config \<Rightarrow> 32 word \<Rightarrow> 32 word \<Rightarrow> TaskStatus \<Rightarrow> enc_call list \<times> 32 word \<times> fault option" where
  "task_entry cfg totalTime ulIdleTime t =
     (let first =
            [OpenContainer taskDetailsArray taskEntryMap CONTAINER_MAP 7,
             AppendKeyValue taskEntryMap KERNEL_TASK_ID (ScalarSignedInt (int (xTaskNumber t))),
             AppendKeyValue taskEntryMap KERNEL_TASK_NAME (ScalarTextString (pcTaskName t)),
             AppendKeyValue taskEntryMap KERNEL_TASK_STATUS
               (ScalarSignedInt (int (eCurrentState t))),
             AppendKeyValue taskEntryMap KERNEL_TASK_PRIORITY
               (ScalarSignedInt (int (uxCurrentPriority t))),
             AppendKeyValue taskEntryMap KERNEL_TASK_ABS_CYCLES
               (ScalarSignedInt (uint (ulRunTimeCounter t)))];
          ulIdleTime' =
            (if TASK_NAME_EQUAL = taskNameFilterIdle cfg (pcTaskName t)
             then ulRunTimeCounter t else ulIdleTime)
      in if totalTime div 100 = 0 then (first, ulIdleTime', Some DivideByZero)
         else
           (first @
            [AppendKeyValue taskEntryMap KERNEL_TASK_PERCENTAGE
               (ScalarSignedInt (uint (ulRunTimeCounter t div (totalTime div 100)))),
             AppendKeyValue taskEntryMap KERNEL_STACK_HIGH_WATERMARK
               (ScalarSignedInt (int (usStackHighWaterMark t))),
             CloseContainer taskDetailsArray taskEntryMap],
            ulIdleTime', None))"

fun task_loop ::
  "config \<Rightarrow> 32 word \<Rightarrow> TaskStatus list \<Rightarrow> 32 word \<Rightarrow> enc_call list \<times> 32 word \<times> fault option" where
  "task_loop cfg totalTime [] ulIdleTime = ([], ulIdleTime, None)"
| "task_loop cfg totalTime (t # ts) ulIdleTime =
     (case task_entry cfg totalTime ulIdleTime t of
        (calls, ulIdleTime', Some f) \<Rightarrow> (calls, ulIdleTime', Some f)
      | (calls, ulIdleTime', None) \<Rightarrow>
          (case task_loop cfg totalTime ts ulIdleTime' of
             (later, ulIdleTime'', f) \<Rightarrow> (calls @ later, ulIdleTime'', f)))"

text \<open>
  The calls of the whole group and the fault, if any, that ends them. The second
  quotient, for \<^verbatim>\<open>mcu_utilization\<close>, is evaluated after \<^verbatim>\<open>mcu_uptime\<close> is appended;
  the subtraction is 32-bit and wraps.
\<close>

definition serializeKernelRuntimeStats ::
  "config \<Rightarrow> statistics \<Rightarrow> enc_call list \<times> fault option" where
  "serializeKernelRuntimeStats cfg st =
     (let uxArraySize = length (pxTaskStatusArray st);
          hs = pxHeapStatus st;
          before =
            [OpenContainerWithKey metricsMap KERNEL_METIRCS mcuUptimeMap CONTAINER_MAP 12,
             AppendKeyValue mcuUptimeMap KERNEL_HEAP_FREE_SIZE
               (ScalarSignedInt (int (xAvailableHeapSpaceInBytes hs))),
             AppendKeyValue mcuUptimeMap KERNEL_HEAP_LARGEST_FREE
               (ScalarSignedInt (int (xSizeOfLargestFreeBlockInBytes hs))),
             AppendKeyValue mcuUptimeMap KERNEL_HEAP_SMALLEST_FREE
               (ScalarSignedInt (int (xSizeOfSmallestFreeBlockInBytes hs))),
             AppendKeyValue mcuUptimeMap KERNEL_HEAP_NUM_OF_FREE
               (ScalarSignedInt (int (xNumberOfFreeBlocks hs))),
             AppendKeyValue mcuUptimeMap KERNEL_HEAP_LOW_WATERMARK
               (ScalarSignedInt (int (xMinimumEverFreeBytesRemaining hs))),
             AppendKeyValue mcuUptimeMap KERNEL_HEAP_SUCCESSFUL_ALLOC
               (ScalarSignedInt (int (xNumberOfSuccessfulAllocations hs))),
             AppendKeyValue mcuUptimeMap KERNEL_HEAP_SUCCESSFUL_FREE
               (ScalarSignedInt (int (xNumberOfSuccessfulFrees hs))),
             AppendKeyValue mcuUptimeMap KERNEL_NUM_OF_TASKS (ScalarSignedInt (int uxArraySize)),
             AppendKeyValue mcuUptimeMap DEVICE_TYPE (ScalarTextString (configPLATFORM_NAME cfg)),
             OpenContainerWithKey mcuUptimeMap KERNEL_TASK_DETAILS taskDetailsArray
               CONTAINER_ARRAY uxArraySize]
      in case task_loop cfg (ulTotalTime st) (pxTaskStatusArray st) 0 of
           (details, ulIdleTime, Some f) \<Rightarrow> (before @ details, Some f)
         | (details, ulIdleTime, None) \<Rightarrow>
             (let uptime =
                    [CloseContainer mcuUptimeMap taskDetailsArray,
                     AppendKeyValue mcuUptimeMap KERNEL_MCU_UPTIME
                       (ScalarSignedInt (uint (ulTotalTime st)))]
              in if ulTotalTime st div 100 = 0
                 then (before @ details @ uptime, Some DivideByZero)
                 else
                   (before @ details @ uptime @
                    [AppendKeyValue mcuUptimeMap KERNEL_MCU_UTILIZATION
                       (ScalarSignedInt
                          (uint ((ulTotalTime st - ulIdleTime) div (ulTotalTime st div 100)))),
                     CloseContainer metricsMap mcuUptimeMap],
                    None)))"

subsection \<open>Collector state\<close>

text \<open>
  Modelled from the spec: the structured encoder behind \<^verbatim>\<open>_defenderEncoder\<close> is not
  part of the sources. The spec gives its contract only: bound to a null buffer of zero
  capacity every operation reports success or buffer-too-small and the encoder counts
  the bytes the real pass will require; bound to a buffer it writes the bytes. Its state
  is the capacity it was initialised with, the bytes written so far and the count of
  bytes that did not fit. The wire format is left open: a parameter that gives the bytes
  of each call.
\<close>

record IotSerializerEncoderObject =
  bufferSize :: nat
  encoded :: "8 word list"
  extraNeeded :: nat

definition IOT_SERIALIZER_ENCODER_CONTAINER_INITIALIZER_STREAM :: IotSerializerEncoderObject where
  "IOT_SERIALIZER_ENCODER_CONTAINER_INITIALIZER_STREAM =
     \<lparr>bufferSize = 0, encoded = [], extraNeeded = 0\<rparr>"

text \<open>
  The report structure. A pointer is an address or null (\<open>None\<close>); the field
  \<^verbatim>\<open>size\<close> is named \<open>size_bytes\<close> here. The bytes of the buffer are kept in the encoder
  object that is bound to it.
\<close>

record metricsReport =
  object :: IotSerializerEncoderObject
  pDataBuffer :: "nat option"
  size_bytes :: nat

text \<open>The static variables of the file: \<^verbatim>\<open>_report\<close>, the flag snapshot and the report id.\<close>

record collector =
  report :: metricsReport
  metricsFlagSnapshot :: "nat \<Rightarrow> 32 word"
  AwsIotDefenderReportId :: "64 word"

definition initial_collector :: collector where
  "initial_collector =
     \<lparr>report = \<lparr>object = IOT_SERIALIZER_ENCODER_CONTAINER_INITIALIZER_STREAM,
                 pDataBuffer = None, size_bytes = 0\<rparr>,
      metricsFlagSnapshot = (\<lambda>i. 0),
      AwsIotDefenderReportId = 0\<rparr>"

subsection \<open>The calls of one pass\<close>

definition VERSION_1_1 :: string where
  "VERSION_1_1 = ''1.1''"

text \<open>
  The first loop of \<^verbatim>\<open>_serialize\<close>, from index \<open>i\<close> with \<open>n\<close> iterations to go. The
  counter is a \<^verbatim>\<open>uint8_t\<close>; with two groups it cannot wrap.
\<close>

fun count_groups :: "(nat \<Rightarrow> 32 word) \<Rightarrow> nat \<Rightarrow> nat \<Rightarrow> nat" where
  "count_groups flagSnapshot i 0 = 0"
| "count_groups flagSnapshot i (Suc n) =
     of_bool (0 < flagSnapshot i) + count_groups flagSnapshot (Suc i) n"

text \<open>The body of the second loop: the dispatch on the group index.\<close>

definition serialize_group ::
  "config \<Rightarrow> statistics \<Rightarrow> (nat \<Rightarrow> 32 word) \<Rightarrow> nat \<Rightarrow> enc_call list \<times> fault option" where
  "serialize_group cfg st flagSnapshot i =
     (if flagSnapshot i \<noteq> 0 then
        (if i = AWS_IOT_DEFENDER_METRICS_TCP_CONNECTIONS
         then (serializeTcpConnections cfg flagSnapshot (tcpConnections st), None)
         else if i = AWS_IOT_DEFENDER_METRICS_TASK_RUNTIME_STAT
         then serializeKernelRuntimeStats cfg st
         else ([], Some AssertFailed))
      else ([], None))"

fun groups_loop ::
  "config \<Rightarrow> statistics \<Rightarrow> (nat \<Rightarrow> 32 word) \<Rightarrow> nat \<Rightarrow> nat \<Rightarrow> enc_call list \<times> fault option" where
  "groups_loop cfg st flagSnapshot i 0 = ([], None)"
| "groups_loop cfg st flagSnapshot i (Suc n) =
     (case serialize_group cfg st flagSnapshot i of
        (calls, Some f) \<Rightarrow> (calls, Some f)
      | (calls, None) \<Rightarrow>
          (case groups_loop cfg st flagSnapshot (Suc i) n of
             (later, f) \<Rightarrow> (calls @ later, f)))"

text \<open>
  The calls of \<^verbatim>\<open>_serialize\<close> after \<^verbatim>\<open>init\<close>. The report id is cast to
  \<^verbatim>\<open>int64_t\<close>, so the header carries the counter read as a signed value.
\<close>

definition serialize_calls ::
  "config \<Rightarrow> statistics \<Rightarrow> collector \<Rightarrow> enc_call list \<times> fault option" where
  "serialize_calls cfg st c =
     (let header =
            [OpenContainer pEncoderObject reportMap CONTAINER_MAP 2,
             OpenContainerWithKey reportMap HEADER_TAG headerMap CONTAINER_MAP 2,
             AppendKeyValue headerMap REPORTID_TAG
               (ScalarSignedInt (sint (AwsIotDefenderReportId c))),
             AppendKeyValue headerMap VERSION_TAG (ScalarTextString VERSION_1_1),
             CloseContainer reportMap headerMap];
          metricsGroupCount =
            count_groups (metricsFlagSnapshot c) 0 DEFENDER_METRICS_GROUP_COUNT;
          metrics =
            [OpenContainerWithKey reportMap METRICS_TAG metricsMap CONTAINER_MAP
               metricsGroupCount]
      in case groups_loop cfg st (metricsFlagSnapshot c) 0 DEFENDER_METRICS_GROUP_COUNT of
           (groups, Some f) \<Rightarrow> (header @ metrics @ groups, Some f)
         | (groups, None) \<Rightarrow>
             (header @ metrics @ groups @
              [CloseContainer reportMap metricsMap,
               CloseContainer pEncoderObject reportMap],
              None))"

subsection \<open>The encoder\<close>

datatype IotSerializerError =
    IOT_SERIALIZER_SUCCESS | IOT_SERIALIZER_BUFFER_TOO_SMALL | IOT_SERIALIZER_OTHER_ERROR

text \<open>
  Modelled from the spec: the operations of the encoder. \<open>encoder_init\<close> binds the
  object to a buffer; with a null buffer the capacity is zero. \<open>encoder_put\<close> is what
  every open, append and close call does with its bytes: they are written when they fit
  and nothing has overflowed yet, and counted as needed otherwise.
\<close>

definition encoder_init ::
  "nat option \<Rightarrow> nat \<Rightarrow> IotSerializerError \<times> IotSerializerEncoderObject" where
  "encoder_init pBuffer n =
     (IOT_SERIALIZER_SUCCESS,
      \<lparr>bufferSize = (case pBuffer of None \<Rightarrow> 0 | Some p \<Rightarrow> n), encoded = [], extraNeeded = 0\<rparr>)"

definition encoder_put ::
  "8 word list \<Rightarrow> IotSerializerEncoderObject \<Rightarrow> IotSerializerError \<times> IotSerializerEncoderObject" where
  "encoder_put bs e =
     (if extraNeeded e = 0 \<and> length (encoded e) + length bs \<le> bufferSize e
      then (IOT_SERIALIZER_SUCCESS, e\<lparr>encoded := encoded e @ bs\<rparr>)
      else (IOT_SERIALIZER_BUFFER_TOO_SMALL, e\<lparr>extraNeeded := extraNeeded e + length bs\<rparr>))"

definition getExtraBufferSizeNeeded :: "IotSerializerEncoderObject \<Rightarrow> nat" where
  "getExtraBufferSizeNeeded e = extraNeeded e"

definition getEncodedSize :: "IotSerializerEncoderObject \<Rightarrow> nat" where
  "getEncodedSize e = length (encoded e)"

definition encoder_destroy :: "IotSerializerEncoderObject \<Rightarrow> IotSerializerEncoderObject" where
  "encoder_destroy e = IOT_SERIALIZER_ENCODER_CONTAINER_INITIALIZER_STREAM"

text \<open>
  The two assertion helpers and the choice between them, made from the buffer pointer
  at the start of every schema encoder. \<open>True\<close> means the assertion holds.
\<close>

definition assertSuccess :: "IotSerializerError \<Rightarrow> bool" where
  "assertSuccess error = (error = IOT_SERIALIZER_SUCCESS)"

definition assertSuccessOrBufferToSmall :: "IotSerializerError \<Rightarrow> bool" where
  "assertSuccessOrBufferToSmall error =
     (error = IOT_SERIALIZER_SUCCESS \<or> error = IOT_SERIALIZER_BUFFER_TOO_SMALL)"

definition assertNoError :: "nat option \<Rightarrow> IotSerializerError \<Rightarrow> bool" where
  "assertNoError pBuffer =
     (if pBuffer = None then assertSuccessOrBufferToSmall else assertSuccess)"

text \<open>The encoder consuming the calls of a pass, each followed by its assertion.\<close>

fun run_calls ::
  "(enc_call \<Rightarrow> 8 word list) \<Rightarrow> nat option \<Rightarrow> enc_call list \<Rightarrow> IotSerializerEncoderObject
     \<Rightarrow> fault + IotSerializerEncoderObject" where
  "run_calls wire pBuffer [] e = Inr e"
| "run_calls wire pBuffer (call # calls) e =
     (case encoder_put (wire call) e of
        (serializerError, e') \<Rightarrow>
          if assertNoError pBuffer serializerError then run_calls wire pBuffer calls e'
          else Inl AssertFailed)"

definition serialize ::
  "config \<Rightarrow> (enc_call \<Rightarrow> 8 word list) \<Rightarrow> statistics \<Rightarrow> collector \<Rightarrow> fault + collector" where
  "serialize cfg wire st c =
     (case encoder_init (pDataBuffer (report c)) (size_bytes (report c)) of
        (serializerError, e0) \<Rightarrow>
          if \<not> assertNoError (pDataBuffer (report c)) serializerError then Inl AssertFailed
          else
            (case serialize_calls cfg st c of
               (calls, trap) \<Rightarrow>
                 (case run_calls wire (pDataBuffer (report c)) calls e0 of
                    Inl f \<Rightarrow> Inl f
                  | Inr e \<Rightarrow>
                      (case trap of
                         Some f \<Rightarrow> Inl f
                       | None \<Rightarrow> Inr (c\<lparr>report := (report c)\<lparr>object := e\<rparr>\<rparr>)))))"

subsection \<open>Building and deleting a report\<close>

definition copyMetricsFlag :: "(nat \<Rightarrow> 32 word) \<Rightarrow> collector \<Rightarrow> collector" where
  "copyMetricsFlag metricsFlag c = c\<lparr>metricsFlagSnapshot := metricsFlag\<rparr>"

text \<open>
  \<open>metricsFlag\<close> is the shared flag table at the time of the call, \<open>MallocReport\<close> the
  allocator, \<open>stDry\<close> and \<open>stReal\<close> what the statistics sources return in the dry and
  in the real pass. The result is the returned \<^verbatim>\<open>bool\<close> with the new state, or the
  fault that ends the program.
\<close>

definition AwsIotDefenderInternal_CreateReport ::
  "config \<Rightarrow> (enc_call \<Rightarrow> 8 word list) \<Rightarrow> (nat \<Rightarrow> 32 word) \<Rightarrow> (nat \<Rightarrow> nat option)
     \<Rightarrow> statistics \<Rightarrow> statistics \<Rightarrow> collector \<Rightarrow> fault + (bool \<times> collector)" where
  "AwsIotDefenderInternal_CreateReport cfg wire metricsFlag MallocReport stDry stReal c =
     (if \<not> (pDataBuffer (report c) = None \<and> size_bytes (report c) = 0) then Inl AssertFailed
      else
        (let c1 = copyMetricsFlag metricsFlag c;
             c2 = c1\<lparr>AwsIotDefenderReportId := AwsIotDefenderReportId c1 + 1\<rparr>
         in case serialize cfg wire stDry c2 of
              Inl f \<Rightarrow> Inl f
            | Inr c3 \<Rightarrow>
                (let dataSize = getExtraBufferSizeNeeded (object (report c3));
                     c4 = c3\<lparr>report := (report c3)\<lparr>object := encoder_destroy (object (report c3))\<rparr>\<rparr>
                 in case MallocReport dataSize of
                      Some pReportBuffer \<Rightarrow>
                        (case serialize cfg wire stReal
                                (c4\<lparr>report := (report c4)\<lparr>pDataBuffer := Some pReportBuffer,
                                                           size_bytes := dataSize\<rparr>\<rparr>) of
                           Inl f \<Rightarrow> Inl f
                         | Inr c5 \<Rightarrow> Inr (True, c5))
                    | None \<Rightarrow> Inr (False, c4))))"

definition AwsIotDefenderInternal_DeleteReport :: "collector \<Rightarrow> collector" where
  "AwsIotDefenderInternal_DeleteReport c =
     c\<lparr>report := \<lparr>object = IOT_SERIALIZER_ENCODER_CONTAINER_INITIALIZER_STREAM,
                   pDataBuffer = None, size_bytes = 0\<rparr>\<rparr>"

definition AwsIotDefenderInternal_GetReportBuffer :: "collector \<Rightarrow> nat option" where
  "AwsIotDefenderInternal_GetReportBuffer c = pDataBuffer (report c)"

definition AwsIotDefenderInternal_GetReportBufferSize :: "collector \<Rightarrow> nat" where
  "AwsIotDefenderInternal_GetReportBufferSize c =
     (if pDataBuffer (report c) = None then 0 else getEncodedSize (object (report c)))"

subsection \<open>Reading a sequence of calls\<close>

text \<open>
  What a sequence of calls puts into the document: the child counts declared when a
  variable is opened as a container, the number of entries added to a variable, and the
  values appended to a variable under a key.
\<close>

fun declared_by :: "encoder_var \<Rightarrow> enc_call \<Rightarrow> nat list" where
  "declared_by v (OpenContainer p ch k n) = (if ch = v then [n] else [])"
| "declared_by v (OpenContainerWithKey p t ch k n) = (if ch = v then [n] else [])"
| "declared_by v (AppendKeyValue p t x) = []"
| "declared_by v (CloseContainer p ch) = []"

definition declared_counts :: "encoder_var \<Rightarrow> enc_call list \<Rightarrow> nat list" where
  "declared_counts v calls = concat (map (declared_by v) calls)"

fun entry_of :: "encoder_var \<Rightarrow> enc_call \<Rightarrow> bool" where
  "entry_of v (OpenContainer p ch k n) = (p = v)"
| "entry_of v (OpenContainerWithKey p t ch k n) = (p = v)"
| "entry_of v (AppendKeyValue p t x) = (p = v)"
| "entry_of v (CloseContainer p ch) = False"

definition appended_count :: "encoder_var \<Rightarrow> enc_call list \<Rightarrow> nat" where
  "appended_count v calls = length (filter (entry_of v) calls)"

fun value_of :: "encoder_var \<Rightarrow> tag \<Rightarrow> enc_call \<Rightarrow> scalar list" where
  "value_of v t (AppendKeyValue p t' x) = (if p = v \<and> t' = t then [x] else [])"
| "value_of v t (OpenContainer p ch k n) = []"
| "value_of v t (OpenContainerWithKey p t' ch k n) = []"
| "value_of v t (CloseContainer p ch) = []"

definition appended_values :: "encoder_var \<Rightarrow> tag \<Rightarrow> enc_call list \<Rightarrow> scalar list" where
  "appended_values v t calls = concat (map (value_of v t) calls)"

text \<open>The bytes a sequence of calls stands for under a wire format.\<close>

definition wire_bytes :: "(enc_call \<Rightarrow> 8 word list) \<Rightarrow> enc_call list \<Rightarrow> 8 word list" where
  "wire_bytes wire calls = concat (map wire calls)"

text \<open>
  The protocol of the encoder on child counts, checked with a stack of the open
  containers, each with its declared count and the entries added so far: a container
  must be closed with as many entries as were declared when it was opened.
\<close>

fun add_entry :: "(nat \<times> nat) list \<Rightarrow> (nat \<times> nat) list" where
  "add_entry [] = []"
| "add_entry ((declared, added) # stack) = (declared, Suc added) # stack"

fun counts_ok :: "(nat \<times> nat) list \<Rightarrow> enc_call list \<Rightarrow> bool" where
  "counts_ok stack [] = True"
| "counts_ok stack (OpenContainer p ch k n # calls) = counts_ok ((n, 0) # add_entry stack) calls"
| "counts_ok stack (OpenContainerWithKey p t ch k n # calls) =
     counts_ok ((n, 0) # add_entry stack) calls"
| "counts_ok stack (AppendKeyValue p t x # calls) = counts_ok (add_entry stack) calls"
| "counts_ok [] (CloseContainer p ch # calls) = False"
| "counts_ok ((declared, added) # stack) (CloseContainer p ch # calls) =
     (declared = added \<and> counts_ok stack calls)"

text \<open>The idle time a task array leaves behind: the counter of its last idle task.\<close>

definition idle_time :: "config \<Rightarrow> TaskStatus list \<Rightarrow> 32 word" where
  "idle_time cfg tasks =
     (case filter (\<lambda>t. taskNameFilterIdle cfg (pcTaskName t) = TASK_NAME_EQUAL) tasks of
        [] \<Rightarrow> 0
      | t # ts \<Rightarrow> ulRunTimeCounter (last (t # ts)))"

text \<open>The report id that a pass over the state \<open>c\<close> puts into the header.\<close>

definition header_report_id :: "config \<Rightarrow> statistics \<Rightarrow> collector \<Rightarrow> scalar list" where
  "header_report_id cfg st c =
     appended_values headerMap REPORTID_TAG (fst (serialize_calls cfg st c))"

subsection \<open>Sequences of calls to the report interface\<close>

text \<open>
  A caller's sequence of create and delete calls, each create call with the flag table,
  the allocator and the statistics it meets. The run stops at the first fault; otherwise
  it gives, for every create call, the returned \<^verbatim>\<open>bool\<close> and the report id of the
  header at that moment, and the final state.
\<close>

datatype api_call =
    Create "nat \<Rightarrow> 32 word" "nat \<Rightarrow> nat option" statistics statistics
  | Delete

fun run_api ::
  "config \<Rightarrow> (enc_call \<Rightarrow> 8 word list) \<Rightarrow> api_call list \<Rightarrow> collector
     \<Rightarrow> fault + ((bool \<times> scalar list) list \<times> collector)" where
  "run_api cfg wire [] c = Inr ([], c)"
| "run_api cfg wire (Delete # calls) c = run_api cfg wire calls (AwsIotDefenderInternal_DeleteReport c)"
| "run_api cfg wire (Create metricsFlag MallocReport stDry stReal # calls) c =
     (case AwsIotDefenderInternal_CreateReport cfg wire metricsFlag MallocReport stDry stReal c of
        Inl f \<Rightarrow> Inl f
      | Inr (ok, c') \<Rightarrow>
          (case run_api cfg wire calls c' of
             Inl f \<Rightarrow> Inl f
           | Inr (log, c'') \<Rightarrow> Inr ((ok, header_report_id cfg stReal c') # log, c'')))"

subsection \<open>Concrete inputs\<close>

definition example_config :: config where
  "example_config =
     \<lparr>configMAX_TASK_NAME_LEN = 16, configPLATFORM_NAME = ''mw300_rd'',
      TCP_CONNECTIONS_ESTABLISHED = 1, TCP_CONNECTIONS_ESTABLISHED_CONNECTIONS = 2,
      TCP_CONNECTIONS_ESTABLISHED_TOTAL = 4, TCP_CONNECTIONS_ESTABLISHED_REMOTE_ADDR = 8\<rparr>"

text \<open>A wire format for the examples: one byte for an open or an append, none for a close.\<close>

fun example_wire :: "enc_call \<Rightarrow> 8 word list" where
  "example_wire (CloseContainer p ch) = []"
| "example_wire (OpenContainer p ch k n) = [0xA0]"
| "example_wire (OpenContainerWithKey p t ch k n) = [0xA0]"
| "example_wire (AppendKeyValue p t x) = [0x01]"

definition example_heap :: HeapStats where
  "example_heap =
     \<lparr>xAvailableHeapSpaceInBytes = 4096, xSizeOfLargestFreeBlockInBytes = 2048,
      xSizeOfSmallestFreeBlockInBytes = 16, xNumberOfFreeBlocks = 3,
      xMinimumEverFreeBytesRemaining = 1024, xNumberOfSuccessfulAllocations = 10,
      xNumberOfSuccessfulFrees = 7\<rparr>"

definition example_task :: "string \<Rightarrow> 32 word \<Rightarrow> TaskStatus" where
  "example_task name cycles =
     \<lparr>xTaskNumber = 1, pcTaskName = name, eCurrentState = 2, uxCurrentPriority = 0,
      ulRunTimeCounter = cycles, usStackHighWaterMark = 64\<rparr>"

definition example_statistics ::
  "IotMetricsTcpConnection list \<Rightarrow> TaskStatus list \<Rightarrow> 32 word \<Rightarrow> statistics" where
  "example_statistics conns tasks totalTime =
     \<lparr>tcpConnections = conns, pxTaskStatusArray = tasks, ulTotalTime = totalTime,
      pxHeapStatus = example_heap\<rparr>"

definition example_connection :: IotMetricsTcpConnection where
  "example_connection = \<lparr>pRemoteAddress = ''192.0.2.7:8883''\<rparr>"

text \<open>
  Flag tables: nothing enabled; only the given mask for the TCP-connections group; only
  the kernel group; everything.
\<close>

definition no_flags :: "nat \<Rightarrow> 32 word" where
  "no_flags i = 0"

definition tcp_flags :: "32 word \<Rightarrow> nat \<Rightarrow> 32 word" where
  "tcp_flags m i = (if i = AWS_IOT_DEFENDER_METRICS_TCP_CONNECTIONS then m else 0)"

definition kernel_flags :: "nat \<Rightarrow> 32 word" where
  "kernel_flags i = (if i = AWS_IOT_DEFENDER_METRICS_TASK_RUNTIME_STAT then 1 else 0)"

definition all_flags :: "nat \<Rightarrow> 32 word" where
  "all_flags i = 0xFFFFFFFF"

text \<open>An allocator that succeeds, and one that is out of memory.\<close>

definition malloc_ok :: "nat \<Rightarrow> nat option" where
  "malloc_ok n = Some 4096"

definition malloc_null :: "nat \<Rightarrow> nat option" where
  "malloc_null n = None"

section \<open>Properties\<close>

subsection \<open>The idle-task name filter\<close>

declare taskNameFilterIdle_loop.simps [simp del]

lemma idleName_no_nul: "CHR 0x00 \<notin> set idleName"
  by (simp add: idleName_def)

lemma c_char_at_nul_iff: "CHR 0x00 \<notin> set s \<Longrightarrow> c_char_at s i = CHR 0x00 \<longleftrightarrow> length s \<le> i"
  by (auto simp: c_char_at_def in_set_conv_nth)

lemma taskNameFilterIdle_loop_equal:
  "CHR 0x00 \<notin> set strA \<Longrightarrow>
   taskNameFilterIdle_loop maxlen strA index = TASK_NAME_EQUAL \<longleftrightarrow>
     drop index strA = drop index idleName \<and> index + length (drop index strA) < maxlen"
proof (induction maxlen strA index rule: taskNameFilterIdle_loop.induct)
  case (1 maxlen strA index)
  note nulA = c_char_at_nul_iff [OF "1.prems"]
  note nulI = c_char_at_nul_iff [OF idleName_no_nul]
  show ?case
  proof (cases "index < maxlen")
    case False
    then show ?thesis
      by (subst taskNameFilterIdle_loop.simps) (simp add: TASK_NAME_EQUAL_def TASK_NAME_NOT_EQUAL_def)
  next
    case True
    consider (both) "length strA \<le> index" "length idleName \<le> index"
      | (onlyA) "length strA \<le> index" "index < length idleName"
      | (onlyI) "index < length strA" "length idleName \<le> index"
      | (neither) "index < length strA" "index < length idleName"
      by linarith
    then show ?thesis
    proof cases
      case both
      with True show ?thesis
        by (subst taskNameFilterIdle_loop.simps) (simp add: nulA nulI)
    next
      case onlyA
      with True show ?thesis
        by (subst taskNameFilterIdle_loop.simps)
           (simp add: nulA nulI TASK_NAME_EQUAL_def TASK_NAME_NOT_EQUAL_def)
    next
      case onlyI
      with True show ?thesis
        by (subst taskNameFilterIdle_loop.simps)
           (simp add: nulA nulI TASK_NAME_EQUAL_def TASK_NAME_NOT_EQUAL_def)
    next
      case neither
      have dA: "drop index strA = strA ! index # drop (Suc index) strA"
        using neither by (simp add: Cons_nth_drop_Suc)
      have dI: "drop index idleName = idleName ! index # drop (Suc index) idleName"
        using neither by (simp add: Cons_nth_drop_Suc)
      have at: "c_char_at strA index = strA ! index" "c_char_at idleName index = idleName ! index"
        using neither by (simp_all add: c_char_at_def)
      have nz: "c_char_at strA index \<noteq> CHR 0x00" "c_char_at idleName index \<noteq> CHR 0x00"
        using neither by (simp_all add: nulA nulI)
      show ?thesis
      proof (cases "strA ! index = idleName ! index")
        case False
        have "taskNameFilterIdle_loop maxlen strA index = TASK_NAME_NOT_EQUAL"
          using True nz False at by (subst taskNameFilterIdle_loop.simps) simp
        with False show ?thesis
          by (simp add: dA dI TASK_NAME_EQUAL_def TASK_NAME_NOT_EQUAL_def)
      next
        case same: True
        have step: "taskNameFilterIdle_loop maxlen strA index =
                    taskNameFilterIdle_loop maxlen strA (Suc index)"
          using True nz same at by (subst taskNameFilterIdle_loop.simps) simp
        have ih: "taskNameFilterIdle_loop maxlen strA (Suc index) = TASK_NAME_EQUAL \<longleftrightarrow>
                  drop (Suc index) strA = drop (Suc index) idleName \<and>
                  Suc index + length (drop (Suc index) strA) < maxlen"
          using "1.IH" True nz same at "1.prems" by simp
        show ?thesis
          unfolding step ih using same neither by (simp add: dA dI) 
      qed
    qed
  qed
qed

lemma taskNameFilterIdle_equal_iff:
  "CHR 0x00 \<notin> set strA \<Longrightarrow>
   taskNameFilterIdle cfg strA = TASK_NAME_EQUAL \<longleftrightarrow>
     strA = ''IDLE'' \<and> 4 < configMAX_TASK_NAME_LEN cfg"
  using taskNameFilterIdle_loop_equal [of strA "configMAX_TASK_NAME_LEN cfg" 0]
  by (auto simp: taskNameFilterIdle_def idleName_def)

subsection \<open>The kernel run-time statistics group\<close>

lemma word32_div_100_eq_0: "(w :: 32 word) div 100 = 0 \<longleftrightarrow> w < 100"
proof -
  have "w div 100 = 0 \<longleftrightarrow> unat (w div 100) = 0"
    by (simp add: unat_eq_0)
  also have "\<dots> \<longleftrightarrow> unat w div 100 = 0"
    by (simp add: unat_div)
  also have "\<dots> \<longleftrightarrow> unat w < 100"
    by (simp add: div_eq_0_iff)
  also have "\<dots> \<longleftrightarrow> w < 100"
    by (simp add: word_less_nat_alt)
  finally show ?thesis .
qed

lemma appended_values_simps [simp]:
  "appended_values v t [] = []"
  "appended_values v t (c # cs) = value_of v t c @ appended_values v t cs"
  "appended_values v t (xs @ ys) = appended_values v t xs @ appended_values v t ys"
  by (simp_all add: appended_values_def)

lemma task_entry_trap:
  "totalTime div 100 = 0 \<Longrightarrow> snd (snd (task_entry cfg totalTime idle t)) = Some DivideByZero"
  by (simp add: task_entry_def Let_def)

lemma task_entry_ok:
  "totalTime div 100 \<noteq> 0 \<Longrightarrow> snd (snd (task_entry cfg totalTime idle t)) = None"
  by (simp add: task_entry_def Let_def)

lemma task_entry_idle:
  "fst (snd (task_entry cfg totalTime idle t)) =
     (if taskNameFilterIdle cfg (pcTaskName t) = TASK_NAME_EQUAL then ulRunTimeCounter t else idle)"
  by (auto simp add: task_entry_def Let_def)

lemma task_entry_percentage:
  "totalTime div 100 \<noteq> 0 \<Longrightarrow>
   appended_values taskEntryMap KERNEL_TASK_PERCENTAGE (fst (task_entry cfg totalTime idle t)) =
     [ScalarSignedInt (uint (ulRunTimeCounter t div (totalTime div 100)))]"
  by (simp add: task_entry_def Let_def)

lemma task_entry_other_var:
  "v \<noteq> taskEntryMap \<Longrightarrow> appended_values v k (fst (task_entry cfg totalTime idle t)) = []"
  by (simp add: task_entry_def Let_def)

lemma task_loop_trap:
  "totalTime div 100 = 0 \<Longrightarrow> ts \<noteq> [] \<Longrightarrow>
   snd (snd (task_loop cfg totalTime ts idle)) = Some DivideByZero"
  using task_entry_trap [of totalTime cfg idle "hd ts"]
  by (cases ts) (auto split: prod.splits option.splits)

lemma task_loop_ok:
  "totalTime div 100 \<noteq> 0 \<Longrightarrow> snd (snd (task_loop cfg totalTime ts idle)) = None"
proof (induction ts arbitrary: idle)
  case Nil
  then show ?case by simp
next
  case (Cons t ts)
  obtain calls idle' f where e: "task_entry cfg totalTime idle t = (calls, idle', f)"
    by (cases "task_entry cfg totalTime idle t") auto
  with task_entry_ok [OF Cons.prems, of cfg idle t] have f: "f = None" by simp
  obtain later idle'' g where l: "task_loop cfg totalTime ts idle' = (later, idle'', g)"
    by (cases "task_loop cfg totalTime ts idle'") auto
  with Cons.IH [OF Cons.prems, of idle'] have "g = None" by simp
  with e f l show ?case by simp
qed

lemma idle_time_Cons:
  "idle_time cfg (t # ts) =
     (if filter (\<lambda>t. taskNameFilterIdle cfg (pcTaskName t) = TASK_NAME_EQUAL) ts = []
      then (if taskNameFilterIdle cfg (pcTaskName t) = TASK_NAME_EQUAL then ulRunTimeCounter t else 0)
      else idle_time cfg ts)"
  by (auto simp: idle_time_def split: list.splits)

lemma task_loop_idle:
  "totalTime div 100 \<noteq> 0 \<Longrightarrow>
   fst (snd (task_loop cfg totalTime ts idle)) =
     (if filter (\<lambda>t. taskNameFilterIdle cfg (pcTaskName t) = TASK_NAME_EQUAL) ts = []
      then idle else idle_time cfg ts)"
proof (induction ts arbitrary: idle)
  case Nil
  then show ?case by simp
next
  case (Cons t ts)
  obtain calls idle' f where e: "task_entry cfg totalTime idle t = (calls, idle', f)"
    by (cases "task_entry cfg totalTime idle t") auto
  with task_entry_ok [OF Cons.prems, of cfg idle t] have f: "f = None" by simp
  from e task_entry_idle [of cfg totalTime idle t]
  have i: "idle' = (if taskNameFilterIdle cfg (pcTaskName t) = TASK_NAME_EQUAL
                    then ulRunTimeCounter t else idle)" by simp
  obtain later idle'' g where l: "task_loop cfg totalTime ts idle' = (later, idle'', g)"
    by (cases "task_loop cfg totalTime ts idle'") auto
  with Cons.IH [OF Cons.prems, of idle']
  have "idle'' = (if filter (\<lambda>t. taskNameFilterIdle cfg (pcTaskName t) = TASK_NAME_EQUAL) ts = []
      then idle' else idle_time cfg ts)" by simp
  with e f l i show ?case by (simp add: idle_time_Cons)
qed

lemma task_loop_percentage:
  "totalTime div 100 \<noteq> 0 \<Longrightarrow>
   appended_values taskEntryMap KERNEL_TASK_PERCENTAGE (fst (task_loop cfg totalTime ts idle)) =
     map (\<lambda>t. ScalarSignedInt (uint (ulRunTimeCounter t div (totalTime div 100)))) ts"
proof (induction ts arbitrary: idle)
  case Nil
  then show ?case by simp
next
  case (Cons t ts)
  obtain calls idle' f where e: "task_entry cfg totalTime idle t = (calls, idle', f)"
    by (cases "task_entry cfg totalTime idle t") auto
  with task_entry_ok [OF Cons.prems, of cfg idle t] have f: "f = None" by simp
  from e task_entry_percentage [OF Cons.prems, of cfg idle t]
  have p: "appended_values taskEntryMap KERNEL_TASK_PERCENTAGE calls =
           [ScalarSignedInt (uint (ulRunTimeCounter t div (totalTime div 100)))]" by simp
  obtain later idle'' g where l: "task_loop cfg totalTime ts idle' = (later, idle'', g)"
    by (cases "task_loop cfg totalTime ts idle'") auto
  with Cons.IH [OF Cons.prems, of idle']
  have "appended_values taskEntryMap KERNEL_TASK_PERCENTAGE later =
     map (\<lambda>t. ScalarSignedInt (uint (ulRunTimeCounter t div (totalTime div 100)))) ts" by simp
  with e f l p show ?case by simp
qed

lemma task_loop_other_var:
  "v \<noteq> taskEntryMap \<Longrightarrow> appended_values v k (fst (task_loop cfg totalTime ts idle)) = []"
proof (induction ts arbitrary: idle)
  case Nil
  then show ?case by simp
next
  case (Cons t ts)
  obtain calls idle' f where e: "task_entry cfg totalTime idle t = (calls, idle', f)"
    by (cases "task_entry cfg totalTime idle t") auto
  from e task_entry_other_var [OF Cons.prems, of k cfg totalTime idle t]
  have p: "appended_values v k calls = []" by simp
  obtain later idle'' g where l: "task_loop cfg totalTime ts idle' = (later, idle'', g)"
    by (cases "task_loop cfg totalTime ts idle'") auto
  with Cons.IH [OF Cons.prems, of idle'] have "appended_values v k later = []" by simp
  with e l p show ?case by (cases f) simp_all
qed

lemma idle_time_empty_filter:
  "filter (\<lambda>t. taskNameFilterIdle cfg (pcTaskName t) = TASK_NAME_EQUAL) ts = [] \<Longrightarrow>
   idle_time cfg ts = 0"
  by (simp add: idle_time_def)

lemma kernel_trap:
  "ulTotalTime st div 100 = 0 \<Longrightarrow> snd (serializeKernelRuntimeStats cfg st) = Some DivideByZero"
proof -
  assume z: "ulTotalTime st div 100 = 0"
  obtain d i f where l: "task_loop cfg (ulTotalTime st) (pxTaskStatusArray st) 0 = (d, i, f)"
    by (cases "task_loop cfg (ulTotalTime st) (pxTaskStatusArray st) 0") auto
  show ?thesis
  proof (cases "pxTaskStatusArray st")
    case Nil
    with z show ?thesis by (simp add: serializeKernelRuntimeStats_def Let_def)
  next
    case (Cons t ts)
    with task_loop_trap [OF z, of "pxTaskStatusArray st" cfg 0] l
    have "f = Some DivideByZero" by simp
    with l show ?thesis by (simp add: serializeKernelRuntimeStats_def Let_def)
  qed
qed

lemma kernel_ok:
  assumes nz: "ulTotalTime st div 100 \<noteq> 0"
  shows "snd (serializeKernelRuntimeStats cfg st) = None"
    and "appended_values taskEntryMap KERNEL_TASK_PERCENTAGE (fst (serializeKernelRuntimeStats cfg st)) =
         map (\<lambda>t. ScalarSignedInt (uint (ulRunTimeCounter t div (ulTotalTime st div 100))))
           (pxTaskStatusArray st)"
    and "appended_values mcuUptimeMap KERNEL_MCU_UPTIME (fst (serializeKernelRuntimeStats cfg st)) =
         [ScalarSignedInt (uint (ulTotalTime st))]"
    and "appended_values mcuUptimeMap KERNEL_MCU_UTILIZATION (fst (serializeKernelRuntimeStats cfg st)) =
         [ScalarSignedInt (uint ((ulTotalTime st - idle_time cfg (pxTaskStatusArray st))
                                  div (ulTotalTime st div 100)))]"
proof -
  obtain d i f where l: "task_loop cfg (ulTotalTime st) (pxTaskStatusArray st) 0 = (d, i, f)"
    by (cases "task_loop cfg (ulTotalTime st) (pxTaskStatusArray st) 0") auto
  from l task_loop_ok [OF nz, of cfg "pxTaskStatusArray st" 0] have f: "f = None" by simp
  from l task_loop_idle [OF nz, of cfg "pxTaskStatusArray st" 0]
  have i: "i = idle_time cfg (pxTaskStatusArray st)"
    by (simp add: idle_time_empty_filter)
  from l task_loop_percentage [OF nz, of cfg "pxTaskStatusArray st" 0]
  have p: "appended_values taskEntryMap KERNEL_TASK_PERCENTAGE d =
     map (\<lambda>t. ScalarSignedInt (uint (ulRunTimeCounter t div (ulTotalTime st div 100))))
       (pxTaskStatusArray st)" by simp
  from l task_loop_other_var [of mcuUptimeMap _ cfg "ulTotalTime st" "pxTaskStatusArray st" 0]
  have m: "\<And>k. appended_values mcuUptimeMap k d = []" by simp
  show "snd (serializeKernelRuntimeStats cfg st) = None"
    using l f nz by (simp add: serializeKernelRuntimeStats_def Let_def)
  show "appended_values taskEntryMap KERNEL_TASK_PERCENTAGE (fst (serializeKernelRuntimeStats cfg st)) =
         map (\<lambda>t. ScalarSignedInt (uint (ulRunTimeCounter t div (ulTotalTime st div 100))))
           (pxTaskStatusArray st)"
    using l f nz p by (simp add: serializeKernelRuntimeStats_def Let_def)
  show "appended_values mcuUptimeMap KERNEL_MCU_UPTIME (fst (serializeKernelRuntimeStats cfg st)) =
         [ScalarSignedInt (uint (ulTotalTime st))]"
    using l f nz m by (simp add: serializeKernelRuntimeStats_def Let_def)
  show "appended_values mcuUptimeMap KERNEL_MCU_UTILIZATION (fst (serializeKernelRuntimeStats cfg st)) =
         [ScalarSignedInt (uint ((ulTotalTime st - idle_time cfg (pxTaskStatusArray st))
                                  div (ulTotalTime st div 100)))]"
    using l f nz m i by (simp add: serializeKernelRuntimeStats_def Let_def)
qed

subsection \<open>The encoder in a pass\<close>

lemma wire_bytes_simps [simp]:
  "wire_bytes wire [] = []"
  "wire_bytes wire (call # calls) = wire call @ wire_bytes wire calls"
  "wire_bytes wire (xs @ ys) = wire_bytes wire xs @ wire_bytes wire ys"
  by (simp_all add: wire_bytes_def)

lemma run_calls_dry:
  "bufferSize e = 0 \<Longrightarrow>
   run_calls wire None calls e =
     Inr (e\<lparr>extraNeeded := extraNeeded e + length (wire_bytes wire calls)\<rparr>)"
proof (induction calls arbitrary: e)
  case Nil
  then show ?case by simp
next
  case (Cons call calls)
  show ?case
  proof (cases "extraNeeded e = 0 \<and> length (encoded e) + length (wire call) \<le> bufferSize e")
    case True
    with Cons.prems have nil: "wire call = []" by simp
    have same: "e\<lparr>encoded := encoded e @ []\<rparr> = e" by simp
    have "encoder_put (wire call) e = (IOT_SERIALIZER_SUCCESS, e)"
      using True nil same by (simp add: encoder_put_def)
    with nil Cons.IH [OF Cons.prems] show ?thesis
      by (simp add: assertNoError_def assertSuccessOrBufferToSmall_def)
  next
    case False
    then have "encoder_put (wire call) e =
        (IOT_SERIALIZER_BUFFER_TOO_SMALL, e\<lparr>extraNeeded := extraNeeded e + length (wire call)\<rparr>)"
      by (simp add: encoder_put_def)
    with Cons.prems Cons.IH [of "e\<lparr>extraNeeded := extraNeeded e + length (wire call)\<rparr>"]
    show ?thesis
      by (simp add: assertNoError_def assertSuccessOrBufferToSmall_def add.assoc)
  qed
qed

lemma run_calls_real:
  "extraNeeded e = 0 \<Longrightarrow>
   length (encoded e) + length (wire_bytes wire calls) \<le> bufferSize e \<Longrightarrow>
   run_calls wire (Some p) calls e = Inr (e\<lparr>encoded := encoded e @ wire_bytes wire calls\<rparr>)"
proof (induction calls arbitrary: e)
  case Nil
  then show ?case by simp
next
  case (Cons call calls)
  from Cons.prems Cons.IH [of "e\<lparr>encoded := encoded e @ wire call\<rparr>"]
  show ?case
    by (simp add: encoder_put_def assertNoError_def assertSuccess_def)
qed

lemma run_calls_real_Inr:
  "run_calls wire (Some p) calls e = Inr e' \<Longrightarrow> extraNeeded e = 0 \<Longrightarrow>
   length (encoded e) \<le> bufferSize e \<Longrightarrow>
   length (encoded e) + length (wire_bytes wire calls) \<le> bufferSize e"
proof (induction calls arbitrary: e)
  case Nil
  then show ?case by simp
next
  case (Cons call calls)
  show ?case
  proof (cases "length (encoded e) + length (wire call) \<le> bufferSize e")
    case True
    with Cons.prems have "run_calls wire (Some p) calls (e\<lparr>encoded := encoded e @ wire call\<rparr>) = Inr e'"
      by (simp add: encoder_put_def assertNoError_def assertSuccess_def)
    from Cons.IH [OF this] Cons.prems True show ?thesis by simp
  next
    case False
    with Cons.prems show ?thesis
      by (simp add: encoder_put_def assertNoError_def assertSuccess_def)
  qed
qed

subsection \<open>One pass and one build\<close>

lemma serialize_calls_cong:
  "metricsFlagSnapshot c = metricsFlagSnapshot c' \<Longrightarrow>
   AwsIotDefenderReportId c = AwsIotDefenderReportId c' \<Longrightarrow>
   serialize_calls cfg st c = serialize_calls cfg st c'"
  by (simp add: serialize_calls_def)

lemma serialize_dry:
  "pDataBuffer (report c) = None \<Longrightarrow>
   serialize cfg wire st c =
     (case snd (serialize_calls cfg st c) of
        Some f \<Rightarrow> Inl f
      | None \<Rightarrow>
          Inr (c\<lparr>report := (report c)\<lparr>object :=
                 \<lparr>bufferSize = 0, encoded = [],
                  extraNeeded = length (wire_bytes wire (fst (serialize_calls cfg st c)))\<rparr>\<rparr>\<rparr>))"
  by (cases "serialize_calls cfg st c")
     (simp add: serialize_def encoder_init_def run_calls_dry assertNoError_def
        assertSuccessOrBufferToSmall_def split: option.splits)

lemma serialize_real_fits:
  "pDataBuffer (report c) = Some p \<Longrightarrow>
   length (wire_bytes wire (fst (serialize_calls cfg st c))) \<le> size_bytes (report c) \<Longrightarrow>
   serialize cfg wire st c =
     (case snd (serialize_calls cfg st c) of
        Some f \<Rightarrow> Inl f
      | None \<Rightarrow>
          Inr (c\<lparr>report := (report c)\<lparr>object :=
                 \<lparr>bufferSize = size_bytes (report c),
                  encoded = wire_bytes wire (fst (serialize_calls cfg st c)),
                  extraNeeded = 0\<rparr>\<rparr>\<rparr>))"
  by (cases "serialize_calls cfg st c")
     (simp add: serialize_def encoder_init_def run_calls_real assertNoError_def
        assertSuccess_def split: option.splits)

lemma serialize_real_Inr:
  assumes "pDataBuffer (report c) = Some p" and "serialize cfg wire st c = Inr c'"
  shows "length (wire_bytes wire (fst (serialize_calls cfg st c))) \<le> size_bytes (report c)"
proof -
  obtain calls trap where sc: "serialize_calls cfg st c = (calls, trap)"
    by (cases "serialize_calls cfg st c") auto
  let ?e0 = "\<lparr>bufferSize = size_bytes (report c), encoded = [], extraNeeded = 0\<rparr>"
  from assms sc obtain e where "run_calls wire (Some p) calls ?e0 = Inr e"
    by (auto simp: serialize_def encoder_init_def assertNoError_def assertSuccess_def
        split: sum.splits option.splits)
  from run_calls_real_Inr [OF this] sc show ?thesis by simp
qed

lemma metricsReport_updates:
  "(r :: metricsReport)\<lparr>object := a, pDataBuffer := b, size_bytes := d\<rparr> =
     \<lparr>object = a, pDataBuffer = b, size_bytes = d\<rparr>"
  "pDataBuffer r = None \<Longrightarrow> size_bytes r = 0 \<Longrightarrow>
   r\<lparr>object := a\<rparr> = \<lparr>object = a, pDataBuffer = None, size_bytes = 0\<rparr>"
  by (cases r; simp)+

lemma CreateReport_eq:
  assumes "pDataBuffer (report c) = None" and "size_bytes (report c) = 0"
  shows "AwsIotDefenderInternal_CreateReport cfg wire metricsFlag MallocReport stDry stReal c =
    (let c2 = c\<lparr>metricsFlagSnapshot := metricsFlag,
                 AwsIotDefenderReportId := AwsIotDefenderReportId c + 1\<rparr>
     in case snd (serialize_calls cfg stDry c2) of
          Some f \<Rightarrow> Inl f
        | None \<Rightarrow>
            (let dataSize = length (wire_bytes wire (fst (serialize_calls cfg stDry c2)))
             in case MallocReport dataSize of
                  None \<Rightarrow>
                    Inr (False,
                         c2\<lparr>report := \<lparr>object = IOT_SERIALIZER_ENCODER_CONTAINER_INITIALIZER_STREAM,
                                        pDataBuffer = None, size_bytes = 0\<rparr>\<rparr>)
                | Some p \<Rightarrow>
                    (case serialize cfg wire stReal
                            (c2\<lparr>report := \<lparr>object = IOT_SERIALIZER_ENCODER_CONTAINER_INITIALIZER_STREAM,
                                           pDataBuffer = Some p, size_bytes = dataSize\<rparr>\<rparr>) of
                       Inl f \<Rightarrow> Inl f
                     | Inr c5 \<Rightarrow> Inr (True, c5))))"
proof -
  let ?c2 = "c\<lparr>metricsFlagSnapshot := metricsFlag,
               AwsIotDefenderReportId := AwsIotDefenderReportId c + 1\<rparr>"
  have dry: "pDataBuffer (report ?c2) = None" using assms by simp
  show ?thesis
    using assms
    by (simp add: AwsIotDefenderInternal_CreateReport_def copyMetricsFlag_def Let_def serialize_dry [OF dry]
        getExtraBufferSizeNeeded_def encoder_destroy_def metricsReport_updates
        split: option.splits)
qed

lemma groups_loop_two:
  "groups_loop cfg st snap 0 DEFENDER_METRICS_GROUP_COUNT =
     (let tcp = (if snap 0 \<noteq> 0 then serializeTcpConnections cfg snap (tcpConnections st) else [])
      in if snap 1 \<noteq> 0
         then (tcp @ fst (serializeKernelRuntimeStats cfg st), snd (serializeKernelRuntimeStats cfg st))
         else (tcp, None))"
proof -
  have two: "DEFENDER_METRICS_GROUP_COUNT = Suc (Suc 0)"
    by (simp add: DEFENDER_METRICS_GROUP_COUNT_def)
  show ?thesis
    unfolding two
    by (cases "serializeKernelRuntimeStats cfg st")
       (simp add: serialize_group_def AWS_IOT_DEFENDER_METRICS_TCP_CONNECTIONS_def
          AWS_IOT_DEFENDER_METRICS_TASK_RUNTIME_STAT_def Let_def split: option.splits)
qed

lemma serialize_calls_trap:
  "snd (serialize_calls cfg st c) =
     (if metricsFlagSnapshot c AWS_IOT_DEFENDER_METRICS_TASK_RUNTIME_STAT \<noteq> 0
         \<and> ulTotalTime st div 100 = 0
      then Some DivideByZero else None)"
proof (cases "metricsFlagSnapshot c 1 \<noteq> 0")
  case False
  then show ?thesis
    by (simp add: serialize_calls_def groups_loop_two Let_def
        AWS_IOT_DEFENDER_METRICS_TASK_RUNTIME_STAT_def)
next
  case True
  show ?thesis
  proof (cases "ulTotalTime st div 100 = 0")
    case z: True
    from kernel_trap [OF z, of cfg] True z show ?thesis
      by (simp add: serialize_calls_def groups_loop_two Let_def
          AWS_IOT_DEFENDER_METRICS_TASK_RUNTIME_STAT_def)
  next
    case nz: False
    from kernel_ok(1) [OF nz, of cfg] True nz show ?thesis
      by (simp add: serialize_calls_def groups_loop_two Let_def
          AWS_IOT_DEFENDER_METRICS_TASK_RUNTIME_STAT_def)
  qed
qed

lemma connections_loop_other_var:
  "v \<noteq> connectionMap \<Longrightarrow> appended_values v k (connections_loop r conns) = []"
  by (induction conns) simp_all

lemma tcp_header_free:
  "appended_values headerMap k (serializeTcpConnections cfg snap conns) = []"
  by (simp add: serializeTcpConnections_def Let_def connections_loop_other_var)

lemma kernel_header_free:
  "appended_values headerMap k (fst (serializeKernelRuntimeStats cfg st)) = []"
proof -
  obtain d i f where l: "task_loop cfg (ulTotalTime st) (pxTaskStatusArray st) 0 = (d, i, f)"
    by (cases "task_loop cfg (ulTotalTime st) (pxTaskStatusArray st) 0") auto
  from l task_loop_other_var [of headerMap k cfg "ulTotalTime st" "pxTaskStatusArray st" 0]
  have "appended_values headerMap k d = []" by simp
  with l show ?thesis
    by (cases f) (simp_all add: serializeKernelRuntimeStats_def Let_def)
qed

lemma header_report_id_eq:
  "header_report_id cfg st c = [ScalarSignedInt (sint (AwsIotDefenderReportId c))]"
proof -
  obtain g f where gl: "groups_loop cfg st (metricsFlagSnapshot c) 0 DEFENDER_METRICS_GROUP_COUNT = (g, f)"
    by (cases "groups_loop cfg st (metricsFlagSnapshot c) 0 DEFENDER_METRICS_GROUP_COUNT") auto
  then have "appended_values headerMap REPORTID_TAG g = []"
    by (auto simp: groups_loop_two Let_def tcp_header_free kernel_header_free split: if_splits)
  with gl show ?thesis
    by (cases f) (simp_all add: header_report_id_def serialize_calls_def Let_def)
qed

lemma serialize_Inr_shape:
  "serialize cfg wire st c = Inr c' \<Longrightarrow> \<exists>e. c' = c\<lparr>report := (report c)\<lparr>object := e\<rparr>\<rparr>"
  by (auto simp: serialize_def split: prod.splits if_splits sum.splits option.splits)

lemma CreateReport_pre:
  "AwsIotDefenderInternal_CreateReport cfg wire metricsFlag MallocReport stDry stReal c = Inr r \<Longrightarrow>
   pDataBuffer (report c) = None \<and> size_bytes (report c) = 0"
  by (auto simp: AwsIotDefenderInternal_CreateReport_def split: if_splits)

lemma CreateReport_trap:
  assumes "pDataBuffer (report c) = None" and "size_bytes (report c) = 0"
    and "metricsFlag AWS_IOT_DEFENDER_METRICS_TASK_RUNTIME_STAT \<noteq> 0"
    and "ulTotalTime stDry div 100 = 0"
  shows "AwsIotDefenderInternal_CreateReport cfg wire metricsFlag MallocReport stDry stReal c = Inl DivideByZero"
  using assms(3,4)
  by (simp add: CreateReport_eq [OF assms(1,2)] serialize_calls_trap Let_def)

lemma CreateReport_failure:
  assumes "pDataBuffer (report c) = None" and "size_bytes (report c) = 0"
    and "metricsFlag AWS_IOT_DEFENDER_METRICS_TASK_RUNTIME_STAT = 0 \<or> ulTotalTime stDry div 100 \<noteq> 0"
    and "MallocReport (length (wire_bytes wire (fst (serialize_calls cfg stDry
            (c\<lparr>metricsFlagSnapshot := metricsFlag,
               AwsIotDefenderReportId := AwsIotDefenderReportId c + 1\<rparr>))))) = None"
  shows "AwsIotDefenderInternal_CreateReport cfg wire metricsFlag MallocReport stDry stReal c =
     Inr (False,
          c\<lparr>metricsFlagSnapshot := metricsFlag,
            AwsIotDefenderReportId := AwsIotDefenderReportId c + 1,
            report := \<lparr>object = IOT_SERIALIZER_ENCODER_CONTAINER_INITIALIZER_STREAM,
                       pDataBuffer = None, size_bytes = 0\<rparr>\<rparr>)"
  using assms(3,4)
  by (auto simp add: CreateReport_eq [OF assms(1,2)] serialize_calls_trap Let_def)

lemma CreateReport_success:
  assumes "pDataBuffer (report c) = None" and "size_bytes (report c) = 0"
    and "metricsFlag AWS_IOT_DEFENDER_METRICS_TASK_RUNTIME_STAT = 0
         \<or> (ulTotalTime stDry div 100 \<noteq> 0 \<and> ulTotalTime stReal div 100 \<noteq> 0)"
  defines "c2 \<equiv> c\<lparr>metricsFlagSnapshot := metricsFlag,
                     AwsIotDefenderReportId := AwsIotDefenderReportId c + 1\<rparr>"
  assumes malloc: "MallocReport (length (wire_bytes wire (fst (serialize_calls cfg stDry c2)))) = Some p"
    and fit: "length (wire_bytes wire (fst (serialize_calls cfg stReal c2)))
         \<le> length (wire_bytes wire (fst (serialize_calls cfg stDry c2)))"
  shows "AwsIotDefenderInternal_CreateReport cfg wire metricsFlag MallocReport stDry stReal c =
     Inr (True,
          c2\<lparr>report :=
               \<lparr>object =
                  \<lparr>bufferSize = length (wire_bytes wire (fst (serialize_calls cfg stDry c2))),
                   encoded = wire_bytes wire (fst (serialize_calls cfg stReal c2)),
                   extraNeeded = 0\<rparr>,
                pDataBuffer = Some p,
                size_bytes = length (wire_bytes wire (fst (serialize_calls cfg stDry c2)))\<rparr>\<rparr>)"
proof -
  let ?n = "length (wire_bytes wire (fst (serialize_calls cfg stDry c2)))"
  let ?c = "c2\<lparr>report := \<lparr>object = IOT_SERIALIZER_ENCODER_CONTAINER_INITIALIZER_STREAM,
                             pDataBuffer = Some p, size_bytes = ?n\<rparr>\<rparr>"
  have same: "serialize_calls cfg stReal ?c = serialize_calls cfg stReal c2"
    by (rule serialize_calls_cong) simp_all
  have p: "pDataBuffer (report ?c) = Some p" by simp
  have fits: "length (wire_bytes wire (fst (serialize_calls cfg stReal ?c))) \<le> size_bytes (report ?c)"
    using fit by (simp add: same)
  have notrap: "snd (serialize_calls cfg stDry c2) = None" "snd (serialize_calls cfg stReal c2) = None"
    using assms(3) by (auto simp: serialize_calls_trap c2_def)
  have "serialize cfg wire stReal ?c =
     Inr (?c\<lparr>report := (report ?c)\<lparr>object :=
            \<lparr>bufferSize = ?n, encoded = wire_bytes wire (fst (serialize_calls cfg stReal c2)),
             extraNeeded = 0\<rparr>\<rparr>\<rparr>)"
    using serialize_real_fits [OF p fits] notrap by (simp add: same)
  then show ?thesis
    using notrap malloc
    by (simp add: CreateReport_eq [OF assms(1,2)] Let_def c2_def [symmetric])
qed

lemma CreateReport_Inr:
  assumes "AwsIotDefenderInternal_CreateReport cfg wire metricsFlag MallocReport stDry stReal c = Inr (ok, c')"
  shows "AwsIotDefenderReportId c' = AwsIotDefenderReportId c + 1"
    and "metricsFlagSnapshot c' = metricsFlag"
    and "\<not> ok \<Longrightarrow> report c' = \<lparr>object = IOT_SERIALIZER_ENCODER_CONTAINER_INITIALIZER_STREAM,
                                    pDataBuffer = None, size_bytes = 0\<rparr>"
    and "ok \<Longrightarrow> pDataBuffer (report c') \<noteq> None"
    and "ok \<Longrightarrow> size_bytes (report c') = length (wire_bytes wire (fst (serialize_calls cfg stDry c')))"
    and "ok \<Longrightarrow> encoded (object (report c')) = wire_bytes wire (fst (serialize_calls cfg stReal c'))"
    and "ok \<Longrightarrow> length (encoded (object (report c'))) \<le> size_bytes (report c')"
proof -
  note pre = CreateReport_pre [OF assms]
  let ?c2 = "c\<lparr>metricsFlagSnapshot := metricsFlag,
               AwsIotDefenderReportId := AwsIotDefenderReportId c + 1\<rparr>"
  let ?n = "length (wire_bytes wire (fst (serialize_calls cfg stDry ?c2)))"
  from assms have notrap: "snd (serialize_calls cfg stDry ?c2) = None"
    by (simp add: CreateReport_eq pre Let_def split: option.splits)
  show "AwsIotDefenderReportId c' = AwsIotDefenderReportId c + 1"
    using assms notrap
    by (auto simp: CreateReport_eq pre Let_def split: option.splits sum.splits
        dest!: serialize_Inr_shape)
  show "metricsFlagSnapshot c' = metricsFlag"
    using assms notrap
    by (auto simp: CreateReport_eq pre Let_def split: option.splits sum.splits
        dest!: serialize_Inr_shape)
  show "\<not> ok \<Longrightarrow> report c' = \<lparr>object = IOT_SERIALIZER_ENCODER_CONTAINER_INITIALIZER_STREAM,
                                    pDataBuffer = None, size_bytes = 0\<rparr>"
    using assms notrap
    by (auto simp: CreateReport_eq pre Let_def split: option.splits sum.splits)
  assume ok
  with assms notrap obtain p where
    m: "MallocReport ?n = Some p" and
    s: "serialize cfg wire stReal
          (?c2\<lparr>report := \<lparr>object = IOT_SERIALIZER_ENCODER_CONTAINER_INITIALIZER_STREAM,
                           pDataBuffer = Some p, size_bytes = ?n\<rparr>\<rparr>) = Inr c'"
    by (auto simp: CreateReport_eq pre Let_def split: option.splits sum.splits)
  let ?c = "?c2\<lparr>report := \<lparr>object = IOT_SERIALIZER_ENCODER_CONTAINER_INITIALIZER_STREAM,
                           pDataBuffer = Some p, size_bytes = ?n\<rparr>\<rparr>"
  have p: "pDataBuffer (report ?c) = Some p" by simp
  from serialize_real_Inr [OF p s]
  have fits: "length (wire_bytes wire (fst (serialize_calls cfg stReal ?c))) \<le> size_bytes (report ?c)" .
  from serialize_real_fits [OF p fits] s
  have c': "c' = ?c\<lparr>report := (report ?c)\<lparr>object :=
                 \<lparr>bufferSize = size_bytes (report ?c),
                  encoded = wire_bytes wire (fst (serialize_calls cfg stReal ?c)),
                  extraNeeded = 0\<rparr>\<rparr>\<rparr>"
    by (simp split: option.splits)
  have sameD: "serialize_calls cfg stDry c' = serialize_calls cfg stDry ?c2"
    by (rule serialize_calls_cong) (simp_all add: c')
  have sameR: "serialize_calls cfg stReal c' = serialize_calls cfg stReal ?c"
    by (rule serialize_calls_cong) (simp_all add: c')
  show "pDataBuffer (report c') \<noteq> None" by (simp add: c')
  show "size_bytes (report c') = length (wire_bytes wire (fst (serialize_calls cfg stDry c')))"
    unfolding sameD by (simp add: c')
  show "encoded (object (report c')) = wire_bytes wire (fst (serialize_calls cfg stReal c'))"
    unfolding sameR by (simp add: c')
  show "length (encoded (object (report c'))) \<le> size_bytes (report c')"
    using fits by (simp add: c')
qed

subsection \<open>The TCP-connections group\<close>

lemma declared_counts_simps [simp]:
  "declared_counts v [] = []"
  "declared_counts v (c # cs) = declared_by v c @ declared_counts v cs"
  "declared_counts v (xs @ ys) = declared_counts v xs @ declared_counts v ys"
  by (simp_all add: declared_counts_def)

lemma appended_count_simps [simp]:
  "appended_count v [] = 0"
  "appended_count v (c # cs) = of_bool (entry_of v c) + appended_count v cs"
  "appended_count v (xs @ ys) = appended_count v xs + appended_count v ys"
  by (simp_all add: appended_count_def)



subsection \<open>Builds in sequence and the report id\<close>

lemma initial_collector_sel [simp]:
  "report initial_collector =
     \<lparr>object = IOT_SERIALIZER_ENCODER_CONTAINER_INITIALIZER_STREAM, pDataBuffer = None, size_bytes = 0\<rparr>"
  "AwsIotDefenderReportId initial_collector = 0"
  by (simp_all add: initial_collector_def)

lemma DeleteReport_sel [simp]:
  "report (AwsIotDefenderInternal_DeleteReport c) =
     \<lparr>object = IOT_SERIALIZER_ENCODER_CONTAINER_INITIALIZER_STREAM, pDataBuffer = None, size_bytes = 0\<rparr>"
  "AwsIotDefenderReportId (AwsIotDefenderInternal_DeleteReport c) = AwsIotDefenderReportId c"
  "metricsFlagSnapshot (AwsIotDefenderInternal_DeleteReport c) = metricsFlagSnapshot c"
  by (simp_all add: AwsIotDefenderInternal_DeleteReport_def)

lemma word32_ge_100: "(100 :: 32 word) \<le> w \<longleftrightarrow> w div 100 \<noteq> 0"
  by (simp add: word32_div_100_eq_0 not_less)

lemma CreateReport_same_statistics:
  assumes "pDataBuffer (report c) = None" and "size_bytes (report c) = 0"
    and "metricsFlag AWS_IOT_DEFENDER_METRICS_TASK_RUNTIME_STAT = 0 \<or> 100 \<le> ulTotalTime st"
    and "MallocReport (length (wire_bytes wire (fst (serialize_calls cfg st
            (c\<lparr>metricsFlagSnapshot := metricsFlag,
               AwsIotDefenderReportId := AwsIotDefenderReportId c + 1\<rparr>))))) \<noteq> None"
  shows "\<exists>c'. AwsIotDefenderInternal_CreateReport cfg wire metricsFlag MallocReport st st c = Inr (True, c')"
proof -
  from assms(4) obtain p where
    "MallocReport (length (wire_bytes wire (fst (serialize_calls cfg st
            (c\<lparr>metricsFlagSnapshot := metricsFlag,
               AwsIotDefenderReportId := AwsIotDefenderReportId c + 1\<rparr>))))) = Some p"
    by auto
  note m = this
  have nt: "metricsFlag AWS_IOT_DEFENDER_METRICS_TASK_RUNTIME_STAT = 0
         \<or> (ulTotalTime st div 100 \<noteq> 0 \<and> ulTotalTime st div 100 \<noteq> 0)"
    using assms(3) by (auto simp: word32_ge_100)
  from CreateReport_success [where MallocReport = MallocReport and stReal = st,
      OF assms(1,2) nt m order_refl]
  show ?thesis by blast
qed

lemma CreateReport_out_of_memory:
  assumes "pDataBuffer (report c) = None" and "size_bytes (report c) = 0"
    and "metricsFlag AWS_IOT_DEFENDER_METRICS_TASK_RUNTIME_STAT = 0 \<or> 100 \<le> ulTotalTime stDry"
    and "\<forall>n. MallocReport n = None"
  shows "\<exists>c'. AwsIotDefenderInternal_CreateReport cfg wire metricsFlag MallocReport stDry stReal c = Inr (False, c')"
  using CreateReport_failure [OF assms(1,2), of metricsFlag stDry MallocReport wire cfg stReal] assms(3,4)
  by (auto simp: word32_ge_100)

lemma serialize_dry_size:
  assumes "pDataBuffer (report c) = None" and "serialize cfg wire st c = Inr cDry"
  shows "getExtraBufferSizeNeeded (object (report cDry)) =
         length (wire_bytes wire (fst (serialize_calls cfg st c)))"
  using assms(2) unfolding serialize_dry [OF assms(1)]
  by (auto simp: getExtraBufferSizeNeeded_def split: option.splits)

lemma run_api_ids:
  "run_api cfg wire calls c = Inr (log, c') \<Longrightarrow>
   AwsIotDefenderReportId c' = AwsIotDefenderReportId c + of_nat (length log) \<and>
   map snd log =
     map (\<lambda>k. [ScalarSignedInt (sint (AwsIotDefenderReportId c + of_nat (Suc k)))])
       [0..<length log] \<and>
   length log = length (filter (\<lambda>a. a \<noteq> Delete) calls)"
proof (induction calls arbitrary: c log)
  case Nil
  then show ?case by auto
next
  case (Cons a calls)
  show ?case
  proof (cases a)
    case Delete
    with Cons.prems have "run_api cfg wire calls (AwsIotDefenderInternal_DeleteReport c) = Inr (log, c')" by simp
    from Cons.IH [OF this] Delete show ?thesis by simp
  next
    case (Create fl m sd sr)
    with Cons.prems obtain ok c1 rest where
      cr: "AwsIotDefenderInternal_CreateReport cfg wire fl m sd sr c = Inr (ok, c1)" and
      run: "run_api cfg wire calls c1 = Inr (rest, c')" and
      log: "log = (ok, header_report_id cfg sr c1) # rest"
      by (auto split: sum.splits prod.splits)
    note id1 = CreateReport_Inr(1) [OF cr]
    from Cons.IH [OF run] have
      ih1: "AwsIotDefenderReportId c' = AwsIotDefenderReportId c1 + of_nat (length rest)" and
      ih2: "map snd rest =
        map (\<lambda>k. [ScalarSignedInt (sint (AwsIotDefenderReportId c1 + of_nat (Suc k)))])
          [0..<length rest]" and
      ih3: "length rest = length (filter (\<lambda>a. a \<noteq> Delete) calls)"
      by simp_all
    have "map snd log =
      map (\<lambda>k. [ScalarSignedInt (sint (AwsIotDefenderReportId c + of_nat (Suc k)))])
        [0..<Suc (length rest)]"
      unfolding map_upt_Suc
      by (simp add: log header_report_id_eq id1 ih2 add.assoc)
    with ih1 ih3 id1 log Create show ?thesis by (simp add: add.assoc)
  qed
qed

lemma sint64_succ:
  "sint (x :: 64 word) < 2 ^ 63 - 1 \<Longrightarrow> sint (x + 1) = sint x + 1"
proof -
  assume a: "sint x < 2 ^ 63 - 1"
  have lo: "- (2 ^ 63) \<le> sint x"
    using sint_ge [of x] by simp
  have "sint (x + 1) = signed_take_bit 63 (sint x + 1)"
    by (simp add: sint_word_ariths)
  also have "\<dots> = sint x + 1"
    using a lo by (intro signed_take_bit_int_eq_self) simp_all
  finally show ?thesis .
qed

lemma serialize_dry_Inr:
  assumes "pDataBuffer (report c) = None" and "serialize cfg wire st c = Inr cDry"
  shows "snd (serialize_calls cfg st c) = None"
  using assms(2) unfolding serialize_dry [OF assms(1)]
  by (auto split: option.splits)

lemma dry_pass_completes:
  "pDataBuffer (report c) = None \<Longrightarrow>
   (\<exists>cDry. serialize cfg wire st c = Inr cDry) \<longleftrightarrow>
     (metricsFlagSnapshot c AWS_IOT_DEFENDER_METRICS_TASK_RUNTIME_STAT = 0
      \<or> 100 \<le> ulTotalTime st)"
  by (auto simp: serialize_dry serialize_calls_trap word32_ge_100 split: option.splits)

subsection \<open>The child-count protocol\<close>

lemma add_entry_Cons [simp]: "add_entry (x # stack) = (fst x, Suc (snd x)) # stack"
  by (cases x) simp

lemma connections_loop_counts:
  "counts_ok ((n, a) # stack) (connections_loop (of_bool b) conns @ rest) =
     counts_ok ((n, a + length conns) # stack) rest"
proof (cases b)
  case True
  have "counts_ok ((n, a) # stack) (connections_loop (Suc 0) conns @ rest) =
     counts_ok ((n, a + length conns) # stack) rest"
    by (induction conns arbitrary: a) simp_all
  with True show ?thesis by simp
next
  case False
  have "counts_ok ((n, a) # stack) (connections_loop 0 conns @ rest) =
     counts_ok ((n, a + length conns) # stack) rest"
    by (induction conns arbitrary: a) simp_all
  with False show ?thesis by simp
qed

lemma tcp_counts:
  "counts_ok stack (serializeTcpConnections cfg snap conns @ rest) \<longleftrightarrow>
     0 < snap AWS_IOT_DEFENDER_METRICS_TCP_CONNECTIONS AND TCP_CONNECTIONS_ESTABLISHED cfg \<and>
     counts_ok (add_entry stack) rest"
  by (cases stack) (auto simp: serializeTcpConnections_def Let_def connections_loop_counts)

lemma task_entry_counts:
  "totalTime div 100 \<noteq> 0 \<Longrightarrow>
   counts_ok ((n, a) # stack) (fst (task_entry cfg totalTime idle t) @ rest) =
     counts_ok ((n, Suc a) # stack) rest"
  by (simp add: task_entry_def Let_def)

lemma task_loop_counts:
  "totalTime div 100 \<noteq> 0 \<Longrightarrow>
   counts_ok ((n, a) # stack) (fst (task_loop cfg totalTime ts idle) @ rest) =
     counts_ok ((n, a + length ts) # stack) rest"
proof (induction ts arbitrary: a idle)
  case Nil
  then show ?case by simp
next
  case (Cons t ts)
  obtain calls idle' f where e: "task_entry cfg totalTime idle t = (calls, idle', f)"
    by (cases "task_entry cfg totalTime idle t") auto
  with task_entry_ok [OF Cons.prems, of cfg idle t] have f: "f = None" by simp
  obtain later idle'' g where l: "task_loop cfg totalTime ts idle' = (later, idle'', g)"
    by (cases "task_loop cfg totalTime ts idle'") auto
  from task_entry_counts [OF Cons.prems, of n a stack cfg idle t "later @ rest"] e
  have "counts_ok ((n, a) # stack) (calls @ later @ rest) =
        counts_ok ((n, Suc a) # stack) (later @ rest)" by simp
  also from Cons.IH [OF Cons.prems, of "Suc a" idle'] l
  have "\<dots> = counts_ok ((n, Suc a + length ts) # stack) rest" by simp
  finally show ?case using e f l by simp
qed

lemma kernel_counts:
  assumes nz: "ulTotalTime st div 100 \<noteq> 0"
  shows "counts_ok stack (fst (serializeKernelRuntimeStats cfg st) @ rest) =
     counts_ok (add_entry stack) rest"
proof -
  obtain d i f where l: "task_loop cfg (ulTotalTime st) (pxTaskStatusArray st) 0 = (d, i, f)"
    by (cases "task_loop cfg (ulTotalTime st) (pxTaskStatusArray st) 0") auto
  from l task_loop_ok [OF nz, of cfg "pxTaskStatusArray st" 0] have f: "f = None" by simp
  have loop: "\<And>n a stack rest. counts_ok ((n, a) # stack) (d @ rest) =
      counts_ok ((n, a + length (pxTaskStatusArray st)) # stack) rest"
    using task_loop_counts [OF nz, of _ _ _ cfg "pxTaskStatusArray st" 0] l by simp
  show ?thesis
    using l f nz
    by (cases stack) (simp_all add: serializeKernelRuntimeStats_def Let_def loop)
qed

lemma child_counts_protocol:
  assumes "metricsFlagSnapshot c AWS_IOT_DEFENDER_METRICS_TASK_RUNTIME_STAT = 0
           \<or> 100 \<le> ulTotalTime st"
  shows "counts_ok [] (fst (serialize_calls cfg st c)) \<longleftrightarrow>
     metricsFlagSnapshot c AWS_IOT_DEFENDER_METRICS_TCP_CONNECTIONS = 0 \<or>
     0 < metricsFlagSnapshot c AWS_IOT_DEFENDER_METRICS_TCP_CONNECTIONS
           AND TCP_CONNECTIONS_ESTABLISHED cfg"
proof -
  have two: "DEFENDER_METRICS_GROUP_COUNT = Suc (Suc 0)"
    by (simp add: DEFENDER_METRICS_GROUP_COUNT_def)
  have cnt: "count_groups (metricsFlagSnapshot c) 0 DEFENDER_METRICS_GROUP_COUNT =
      of_bool (metricsFlagSnapshot c 0 \<noteq> 0) + of_bool (metricsFlagSnapshot c 1 \<noteq> 0)"
    unfolding two by (simp add: word_neq_0_conv)
  show ?thesis
  proof (cases "metricsFlagSnapshot c 1 = 0")
    case True
    then show ?thesis
      by (auto simp: serialize_calls_def Let_def groups_loop_two cnt tcp_counts
          AWS_IOT_DEFENDER_METRICS_TCP_CONNECTIONS_def)
  next
    case False
    with assms have nz: "ulTotalTime st div 100 \<noteq> 0"
      by (simp add: AWS_IOT_DEFENDER_METRICS_TASK_RUNTIME_STAT_def word32_ge_100)
    from kernel_ok(1) [OF nz, of cfg] False show ?thesis
      by (auto simp: serialize_calls_def Let_def groups_loop_two cnt tcp_counts
          kernel_counts [OF nz]
          AWS_IOT_DEFENDER_METRICS_TCP_CONNECTIONS_def)
  qed
qed

subsection \<open>Evaluating the concrete inputs\<close>

lemma example_statistics_sel [simp]:
  "tcpConnections (example_statistics conns tasks totalTime) = conns"
  "pxTaskStatusArray (example_statistics conns tasks totalTime) = tasks"
  "ulTotalTime (example_statistics conns tasks totalTime) = totalTime"
  "pxHeapStatus (example_statistics conns tasks totalTime) = example_heap"
  by (simp_all add: example_statistics_def)

lemma example_task_sel [simp]:
  "pcTaskName (example_task name cycles) = name"
  "ulRunTimeCounter (example_task name cycles) = cycles"
  by (simp_all add: example_task_def)

lemma example_filter [simp]:
  "taskNameFilterIdle example_config ''IDLE'' = TASK_NAME_EQUAL"
  "taskNameFilterIdle example_config ''app'' \<noteq> TASK_NAME_EQUAL"
  using taskNameFilterIdle_equal_iff [of "''IDLE''" example_config]
    taskNameFilterIdle_equal_iff [of "''app''" example_config]
  by (simp_all add: example_config_def)

lemma idle_time_example:
  "idle_time example_config [example_task ''IDLE'' 600, example_task ''app'' 400] = 600"
  "idle_time example_config [example_task ''app'' 150] = 0"
  by (simp_all add: idle_time_def)

lemma flags_sel [simp]:
  "no_flags i = 0"
  "kernel_flags AWS_IOT_DEFENDER_METRICS_TASK_RUNTIME_STAT = 1"
  "tcp_flags m AWS_IOT_DEFENDER_METRICS_TASK_RUNTIME_STAT = 0"
  "tcp_flags m AWS_IOT_DEFENDER_METRICS_TCP_CONNECTIONS = m"
  "all_flags i = 0xFFFFFFFF"
  by (simp_all add: no_flags_def kernel_flags_def tcp_flags_def all_flags_def
      AWS_IOT_DEFENDER_METRICS_TASK_RUNTIME_STAT_def AWS_IOT_DEFENDER_METRICS_TCP_CONNECTIONS_def)

lemma malloc_sel [simp]:
  "malloc_ok n = Some 4096"
  "malloc_null n = None"
  by (simp_all add: malloc_ok_def malloc_null_def)

text \<open>The first build from the initial state, with nothing enabled.\<close>

lemma first_build:
  "\<exists>c1. AwsIotDefenderInternal_CreateReport example_config example_wire no_flags malloc_ok st st initial_collector
          = Inr (True, c1)"
  by (rule CreateReport_same_statistics) simp_all

lemma example_config_sel [simp]:
  "TCP_CONNECTIONS_ESTABLISHED example_config = 1"
  "TCP_CONNECTIONS_ESTABLISHED_CONNECTIONS example_config = 2"
  "TCP_CONNECTIONS_ESTABLISHED_TOTAL example_config = 4"
  "TCP_CONNECTIONS_ESTABLISHED_REMOTE_ADDR example_config = 8"
  by (simp_all add: example_config_def)

lemma tcp_without_established:
  "snap AWS_IOT_DEFENDER_METRICS_TCP_CONNECTIONS AND TCP_CONNECTIONS_ESTABLISHED cfg = 0 \<Longrightarrow>
   serializeTcpConnections cfg snap conns =
     [OpenContainerWithKey metricsMap TCP_CONN_TAG tcpConnectionMap CONTAINER_MAP 1,
      CloseContainer metricsMap tcpConnectionMap]"
  by (simp add: serializeTcpConnections_def Let_def)

lemma serialize_calls_tcp_only:
  "metricsFlagSnapshot c AWS_IOT_DEFENDER_METRICS_TCP_CONNECTIONS \<noteq> 0 \<Longrightarrow>
   metricsFlagSnapshot c AWS_IOT_DEFENDER_METRICS_TASK_RUNTIME_STAT = 0 \<Longrightarrow>
   fst (serialize_calls cfg st c) =
     [OpenContainer pEncoderObject reportMap CONTAINER_MAP 2,
      OpenContainerWithKey reportMap HEADER_TAG headerMap CONTAINER_MAP 2,
      AppendKeyValue headerMap REPORTID_TAG (ScalarSignedInt (sint (AwsIotDefenderReportId c))),
      AppendKeyValue headerMap VERSION_TAG (ScalarTextString VERSION_1_1),
      CloseContainer reportMap headerMap,
      OpenContainerWithKey reportMap METRICS_TAG metricsMap CONTAINER_MAP 1]
     @ serializeTcpConnections cfg (metricsFlagSnapshot c) (tcpConnections st)
     @ [CloseContainer reportMap metricsMap, CloseContainer pEncoderObject reportMap]"
proof -
  have two: "DEFENDER_METRICS_GROUP_COUNT = Suc (Suc 0)"
    by (simp add: DEFENDER_METRICS_GROUP_COUNT_def)
  assume "metricsFlagSnapshot c AWS_IOT_DEFENDER_METRICS_TCP_CONNECTIONS \<noteq> 0"
    "metricsFlagSnapshot c AWS_IOT_DEFENDER_METRICS_TASK_RUNTIME_STAT = 0"
  then show ?thesis
    by (simp add: serialize_calls_def groups_loop_two Let_def
        AWS_IOT_DEFENDER_METRICS_TASK_RUNTIME_STAT_def AWS_IOT_DEFENDER_METRICS_TCP_CONNECTIONS_def
        word_neq_0_conv)
       (simp add: two)
qed

lemma example_tcp_sizes:
  assumes "metricsFlagSnapshot c = tcp_flags 7"
  shows "length (wire_bytes example_wire
           (fst (serialize_calls example_config (example_statistics [example_connection] [] 0) c))) = 10"
    and "length (wire_bytes example_wire
           (fst (serialize_calls example_config (example_statistics [] [] 0) c))) = 8"
  by (simp_all add: serialize_calls_tcp_only assms serializeTcpConnections_def Let_def)

lemma shrinking_build:
  "\<exists>c'. AwsIotDefenderInternal_CreateReport example_config example_wire (tcp_flags 7) malloc_ok
           (example_statistics [example_connection] [] 0) (example_statistics [] [] 0)
           initial_collector = Inr (True, c')"
  by (rule exI, rule CreateReport_success [where MallocReport = malloc_ok])
     (simp_all add: example_tcp_sizes)

subsection \<open>The size of an example report\<close>

lemma example_kernel_calls_length:
  "length (wire_bytes example_wire
     (fst (serializeKernelRuntimeStats example_config
        (example_statistics conns [example_task ''IDLE'' 600, example_task ''app'' 400] 1000)))) = 29"
  by (simp add: serializeKernelRuntimeStats_def task_entry_def Let_def)

lemma example_all_size:
  assumes "metricsFlagSnapshot c = all_flags"
  shows "length (wire_bytes example_wire
           (fst (serialize_calls example_config
              (example_statistics [example_connection]
                 [example_task ''IDLE'' 600, example_task ''app'' 400] 1000) c))) = 40"
proof -
  have nz: "ulTotalTime (example_statistics [example_connection]
                 [example_task ''IDLE'' 600, example_task ''app'' 400] 1000) div 100 \<noteq> 0"
    by simp
  have two: "DEFENDER_METRICS_GROUP_COUNT = Suc (Suc 0)"
    by (simp add: DEFENDER_METRICS_GROUP_COUNT_def)
  show ?thesis
    using kernel_ok(1) [OF nz, of example_config]
    by (simp add: serialize_calls_def groups_loop_two Let_def assms
        example_kernel_calls_length serializeTcpConnections_def
        AWS_IOT_DEFENDER_METRICS_TCP_CONNECTIONS_def)
qed

section \<open>Claims\<close>

text \<open>
  C1 does not hold of the code: the divisor \<^verbatim>\<open>ulTotalTime / 100\<close> is not guarded. With
  a total run time of 0 and one task the first percentage divides by zero; with a total
  run time of 99 and no task the utilization does; a build with the kernel group enabled
  and a total run time of 0 ends in that fault.
\<close>

theorem zero_total_time_divides_by_zero:
  "snd (serializeKernelRuntimeStats example_config
          (example_statistics [] [example_task ''IDLE'' 0] 0)) = Some DivideByZero \<and>
   snd (serializeKernelRuntimeStats example_config (example_statistics [] [] 99))
     = Some DivideByZero \<and>
   AwsIotDefenderInternal_CreateReport example_config example_wire kernel_flags malloc_ok
     (example_statistics [] [example_task ''IDLE'' 0] 0)
     (example_statistics [] [example_task ''IDLE'' 0] 0) initial_collector = Inl DivideByZero"
  by (simp add: kernel_trap CreateReport_trap)

text \<open>
  C2. When the report is unset, the dry pass of \<^verbatim>\<open>_serialize\<close> has completed and the
  allocator has returned a buffer for the extra size the encoder reports after it, and
  the statistics are the same in both passes, then the build returns \<open>True\<close>: the
  real pass completes, the stored size is that extra size, the real pass writes
  exactly the bytes of its calls, their number is the stored size, and nothing is left
  over that did not fit.
\<close>

theorem exact_sizing:
  assumes "pDataBuffer (report c) = None" and "size_bytes (report c) = 0"
    and "serialize cfg wire st
           (c\<lparr>metricsFlagSnapshot := metricsFlag,
              AwsIotDefenderReportId := AwsIotDefenderReportId c + 1\<rparr>) = Inr cDry"
    and "MallocReport (getExtraBufferSizeNeeded (object (report cDry))) = Some p"
  shows "\<exists>c'. AwsIotDefenderInternal_CreateReport cfg wire metricsFlag MallocReport st st c = Inr (True, c') \<and>
              pDataBuffer (report c') = Some p \<and>
              size_bytes (report c') = getExtraBufferSizeNeeded (object (report cDry)) \<and>
              encoded (object (report c')) = wire_bytes wire (fst (serialize_calls cfg st c')) \<and>
              getEncodedSize (object (report c')) = size_bytes (report c') \<and>
              extraNeeded (object (report c')) = 0"
proof -
  let ?c2 = "c\<lparr>metricsFlagSnapshot := metricsFlag,
               AwsIotDefenderReportId := AwsIotDefenderReportId c + 1\<rparr>"
  let ?n = "length (wire_bytes wire (fst (serialize_calls cfg st ?c2)))"
  have dry: "pDataBuffer (report ?c2) = None" using assms(1) by simp
  have n: "getExtraBufferSizeNeeded (object (report cDry)) = ?n"
    by (rule serialize_dry_size [OF dry assms(3)])
  have m: "MallocReport ?n = Some p" using assms(4) by (simp add: n)
  have "snd (serialize_calls cfg st ?c2) = None"
    by (rule serialize_dry_Inr [OF dry assms(3)])
  then have nt: "metricsFlag AWS_IOT_DEFENDER_METRICS_TASK_RUNTIME_STAT = 0
         \<or> (ulTotalTime st div 100 \<noteq> 0 \<and> ulTotalTime st div 100 \<noteq> 0)"
    by (auto simp: serialize_calls_trap split: if_splits)
  let ?c' = "?c2\<lparr>report :=
               \<lparr>object = \<lparr>bufferSize = ?n, encoded = wire_bytes wire (fst (serialize_calls cfg st ?c2)),
                          extraNeeded = 0\<rparr>,
                pDataBuffer = Some p, size_bytes = ?n\<rparr>\<rparr>"
  have s: "AwsIotDefenderInternal_CreateReport cfg wire metricsFlag MallocReport st st c = Inr (True, ?c')"
    by (rule CreateReport_success [where MallocReport = MallocReport and stReal = st,
          OF assms(1,2) nt m order_refl])
  have same: "serialize_calls cfg st ?c' = serialize_calls cfg st ?c2"
    by (rule serialize_calls_cong) simp_all
  have "pDataBuffer (report ?c') = Some p"
    by simp
  moreover have "size_bytes (report ?c') = getExtraBufferSizeNeeded (object (report cDry))"
    by (simp add: n)
  moreover have "encoded (object (report ?c')) = wire_bytes wire (fst (serialize_calls cfg st ?c'))"
    unfolding same by simp
  moreover have "getEncodedSize (object (report ?c')) = size_bytes (report ?c')"
    by (simp add: getEncodedSize_def)
  moreover have "extraNeeded (object (report ?c')) = 0"
    by simp
  ultimately show ?thesis
    using s by blast
qed

theorem exact_sizing_witness:
  "\<exists>cDry c'.
      pDataBuffer (report initial_collector) = None \<and> size_bytes (report initial_collector) = 0 \<and>
      serialize example_config example_wire
        (example_statistics [example_connection]
           [example_task ''IDLE'' 600, example_task ''app'' 400] 1000)
        (initial_collector\<lparr>metricsFlagSnapshot := all_flags,
           AwsIotDefenderReportId := AwsIotDefenderReportId initial_collector + 1\<rparr>) = Inr cDry \<and>
      malloc_ok (getExtraBufferSizeNeeded (object (report cDry))) = Some 4096 \<and>
      AwsIotDefenderInternal_CreateReport example_config example_wire all_flags malloc_ok
        (example_statistics [example_connection]
           [example_task ''IDLE'' 600, example_task ''app'' 400] 1000)
        (example_statistics [example_connection]
           [example_task ''IDLE'' 600, example_task ''app'' 400] 1000)
        initial_collector = Inr (True, c') \<and>
      pDataBuffer (report c') = Some 4096 \<and>
      getExtraBufferSizeNeeded (object (report cDry)) = 40 \<and>
      size_bytes (report c') = 40 \<and>
      getEncodedSize (object (report c')) = 40 \<and>
      extraNeeded (object (report c')) = 0"
proof -
  let ?st = "example_statistics [example_connection]
               [example_task ''IDLE'' 600, example_task ''app'' 400] 1000"
  let ?c2 = "initial_collector\<lparr>metricsFlagSnapshot := all_flags,
           AwsIotDefenderReportId := AwsIotDefenderReportId initial_collector + 1\<rparr>"
  have h1: "pDataBuffer (report initial_collector) = None" by simp
  have h2: "size_bytes (report initial_collector) = 0" by simp
  have "pDataBuffer (report ?c2) = None" by simp
  from dry_pass_completes [OF this, of example_config example_wire ?st]
  obtain cDry where h3: "serialize example_config example_wire ?st ?c2 = Inr cDry"
    by auto
  have h4: "malloc_ok (getExtraBufferSizeNeeded (object (report cDry))) = Some 4096" by simp
  from exact_sizing
    [where metricsFlag = all_flags and MallocReport = malloc_ok and cfg = example_config
       and wire = example_wire, OF h1 h2 h3 h4]
  obtain c' where
    r: "AwsIotDefenderInternal_CreateReport example_config example_wire all_flags malloc_ok
          ?st ?st initial_collector = Inr (True, c')" and
    p: "pDataBuffer (report c') = Some 4096" and
    n: "size_bytes (report c') = getExtraBufferSizeNeeded (object (report cDry))" and
    e: "encoded (object (report c')) = wire_bytes example_wire (fst (serialize_calls example_config ?st c'))" and
    g: "getEncodedSize (object (report c')) = size_bytes (report c')" and
    x: "extraNeeded (object (report c')) = 0"
    by blast
  from CreateReport_Inr(2) [OF r] have "metricsFlagSnapshot c' = all_flags" .
  from example_all_size [OF this] e have "getEncodedSize (object (report c')) = 40"
    by (simp add: getEncodedSize_def)
  with g n have "size_bytes (report c') = 40" "getExtraBufferSizeNeeded (object (report cDry)) = 40"
    "getEncodedSize (object (report c')) = 40"
    by simp_all
  with h1 h2 h3 h4 r p x show ?thesis by blast
qed

text \<open>
  C3 does not hold of the code: the \<^verbatim>\<open>tcp_connections\<close> map is opened with a declared
  count of 1 whatever the flags are. With a nonzero flag word that has no bit of the
  established mask, here only the total bit, nothing is appended to it: one child is
  declared, none is added, and the calls of the pass break the child-count protocol.
\<close>

theorem tcp_connections_declares_absent_child:
  "0 < tcp_flags 4 AWS_IOT_DEFENDER_METRICS_TCP_CONNECTIONS \<and>
   tcp_flags 4 AWS_IOT_DEFENDER_METRICS_TCP_CONNECTIONS
     AND TCP_CONNECTIONS_ESTABLISHED example_config = 0 \<and>
   serializeTcpConnections example_config (tcp_flags 4) [example_connection] =
     [OpenContainerWithKey metricsMap TCP_CONN_TAG tcpConnectionMap CONTAINER_MAP 1,
      CloseContainer metricsMap tcpConnectionMap] \<and>
   declared_counts tcpConnectionMap
     (serializeTcpConnections example_config (tcp_flags 4) [example_connection]) = [1] \<and>
   appended_count tcpConnectionMap
     (serializeTcpConnections example_config (tcp_flags 4) [example_connection]) = 0 \<and>
   \<not> counts_ok []
     (fst (serialize_calls example_config (example_statistics [example_connection] [] 0)
        (initial_collector\<lparr>metricsFlagSnapshot := tcp_flags 4\<rparr>)))"
proof -
  have z: "tcp_flags 4 AWS_IOT_DEFENDER_METRICS_TCP_CONNECTIONS
     AND TCP_CONNECTIONS_ESTABLISHED example_config = 0"
    by simp
  show ?thesis
    by (simp add: tcp_without_established [where snap = "tcp_flags 4", OF z]
        serialize_calls_tcp_only)
qed



text \<open>
  C5, as amended. When the total run time is at least 100, the group completes, every
  task's percentage is its counter divided by a hundredth of the total run time (the
  total is divided by 100 first, in 32-bit unsigned arithmetic), the utilization is the
  32-bit difference of total and idle time divided by the same hundredth, and the uptime
  is the total run time.
\<close>

theorem run_time_percentages:
  assumes "100 \<le> ulTotalTime st"
  shows "snd (serializeKernelRuntimeStats cfg st) = None \<and>
         appended_values taskEntryMap KERNEL_TASK_PERCENTAGE (fst (serializeKernelRuntimeStats cfg st)) =
           map (\<lambda>t. ScalarSignedInt (uint (ulRunTimeCounter t div (ulTotalTime st div 100))))
             (pxTaskStatusArray st) \<and>
         appended_values mcuUptimeMap KERNEL_MCU_UPTIME (fst (serializeKernelRuntimeStats cfg st)) =
           [ScalarSignedInt (uint (ulTotalTime st))] \<and>
         appended_values mcuUptimeMap KERNEL_MCU_UTILIZATION (fst (serializeKernelRuntimeStats cfg st)) =
           [ScalarSignedInt (uint ((ulTotalTime st - idle_time cfg (pxTaskStatusArray st))
                                    div (ulTotalTime st div 100)))]"
proof -
  from assms have "ulTotalTime st div 100 \<noteq> 0"
    by (simp add: word32_div_100_eq_0 not_less)
  from kernel_ok [OF this] show ?thesis by simp
qed

theorem run_time_percentages_witness:
  "(100 :: 32 word) \<le> ulTotalTime (example_statistics [] [example_task ''IDLE'' 600, example_task ''app'' 400] 1000) \<and>
   snd (serializeKernelRuntimeStats example_config
          (example_statistics [] [example_task ''IDLE'' 600, example_task ''app'' 400] 1000)) = None \<and>
   appended_values taskEntryMap KERNEL_TASK_PERCENTAGE
     (fst (serializeKernelRuntimeStats example_config
        (example_statistics [] [example_task ''IDLE'' 600, example_task ''app'' 400] 1000))) =
     [ScalarSignedInt 60, ScalarSignedInt 40] \<and>
   appended_values mcuUptimeMap KERNEL_MCU_UPTIME
     (fst (serializeKernelRuntimeStats example_config
        (example_statistics [] [example_task ''IDLE'' 600, example_task ''app'' 400] 1000))) =
     [ScalarSignedInt 1000] \<and>
   appended_values mcuUptimeMap KERNEL_MCU_UTILIZATION
     (fst (serializeKernelRuntimeStats example_config
        (example_statistics [] [example_task ''IDLE'' 600, example_task ''app'' 400] 1000))) =
     [ScalarSignedInt 40]"
proof -
  have h: "(100 :: 32 word) \<le> ulTotalTime (example_statistics [] [example_task ''IDLE'' 600, example_task ''app'' 400] 1000)"
    by simp
  from run_time_percentages [OF h, of example_config] h show ?thesis
    by (simp add: idle_time_example)
qed

text \<open>
  C5, as stated, fails: with one task of 150 cycles and a total run time of 150 the code
  reports 150 for the percentage and for the utilization, where
  \<open>cycles * 100 / totalTime\<close> is 100.
\<close>

theorem percentage_formula_counterexample:
  "appended_values taskEntryMap KERNEL_TASK_PERCENTAGE
     (fst (serializeKernelRuntimeStats example_config
        (example_statistics [] [example_task ''app'' 150] 150))) =
     [ScalarSignedInt 150] \<and>
   appended_values mcuUptimeMap KERNEL_MCU_UTILIZATION
     (fst (serializeKernelRuntimeStats example_config
        (example_statistics [] [example_task ''app'' 150] 150))) =
     [ScalarSignedInt 150] \<and>
   (150 * 100 div 150 :: int) \<noteq> 150 \<and> ((150 - 0) * 100 div 150 :: int) \<noteq> 150"
proof -
  have h: "ulTotalTime (example_statistics [] [example_task ''app'' 150] 150) div 100 \<noteq> 0"
    by simp
  from kernel_ok(2,4) [OF h, of example_config] show ?thesis
    by (simp add: idle_time_example)
qed

text \<open>
  C6, as amended. Between two successful builds the 64-bit id counter grows by exactly
  1 plus the number of create calls made in between (failed ones, when the two builds
  are consecutive successes), so by exactly 1 when only delete calls separate them; the header of each build carries the counter read as a signed
  64-bit value, which then grows by 1 as an integer unless the counter was at its
  largest signed value. Neither call ever resets the counter.
\<close>

theorem report_id_between_builds:
  assumes "AwsIotDefenderInternal_CreateReport cfg wire f1 m1 a1 b1 c0 = Inr (True, c1)"
    and "run_api cfg wire between c1 = Inr (log, c2)"
    and "AwsIotDefenderInternal_CreateReport cfg wire f2 m2 a2 b2 c2 = Inr (True, c3)"
  shows "AwsIotDefenderReportId c3 =
           AwsIotDefenderReportId c1 + 1 + of_nat (length (filter (\<lambda>a. a \<noteq> Delete) between)) \<and>
         header_report_id cfg b1 c1 = [ScalarSignedInt (sint (AwsIotDefenderReportId c1))] \<and>
         header_report_id cfg b2 c3 = [ScalarSignedInt (sint (AwsIotDefenderReportId c3))] \<and>
         (filter (\<lambda>a. a \<noteq> Delete) between = [] \<and> sint (AwsIotDefenderReportId c1) < 2 ^ 63 - 1
            \<longrightarrow> sint (AwsIotDefenderReportId c3) = sint (AwsIotDefenderReportId c1) + 1)"
proof -
  from run_api_ids [OF assms(2)] have
    mid: "AwsIotDefenderReportId c2 = AwsIotDefenderReportId c1 + of_nat (length log)" and
    len: "length log = length (filter (\<lambda>a. a \<noteq> Delete) between)"
    by simp_all
  from CreateReport_Inr(1) [OF assms(3)] mid len
  have id3: "AwsIotDefenderReportId c3 =
      AwsIotDefenderReportId c1 + 1 + of_nat (length (filter (\<lambda>a. a \<noteq> Delete) between))"
    by simp
  then show ?thesis
    by (auto simp: header_report_id_eq sint64_succ)
qed

theorem report_id_between_builds_witness:
  "\<exists>c1 c2 c3.
     AwsIotDefenderInternal_CreateReport example_config example_wire no_flags malloc_ok
       (example_statistics [] [] 0) (example_statistics [] [] 0) initial_collector = Inr (True, c1) \<and>
     run_api example_config example_wire [Delete] c1 = Inr ([], c2) \<and>
     AwsIotDefenderInternal_CreateReport example_config example_wire no_flags malloc_ok
       (example_statistics [] [] 0) (example_statistics [] [] 0) c2 = Inr (True, c3) \<and>
     AwsIotDefenderReportId c1 = 1 \<and> AwsIotDefenderReportId c3 = 2 \<and>
     header_report_id example_config (example_statistics [] [] 0) c1 = [ScalarSignedInt 1] \<and>
     header_report_id example_config (example_statistics [] [] 0) c3 = [ScalarSignedInt 2]"
proof -
  let ?st = "example_statistics [] [] 0"
  obtain c1 where b1: "AwsIotDefenderInternal_CreateReport example_config example_wire no_flags malloc_ok ?st ?st
      initial_collector = Inr (True, c1)"
    using first_build by blast
  note f1 = CreateReport_Inr(1) [OF b1]
  have r: "run_api example_config example_wire [Delete] c1 = Inr ([], AwsIotDefenderInternal_DeleteReport c1)"
    by simp
  obtain c3 where b3: "AwsIotDefenderInternal_CreateReport example_config example_wire no_flags malloc_ok ?st ?st
      (AwsIotDefenderInternal_DeleteReport c1) = Inr (True, c3)"
    using CreateReport_same_statistics [of "AwsIotDefenderInternal_DeleteReport c1" no_flags ?st malloc_ok example_wire example_config]
    by auto
  from report_id_between_builds [OF b1 r b3] f1 b1 r b3 show ?thesis
    by (intro exI [of _ c1] exI [of _ "AwsIotDefenderInternal_DeleteReport c1"] exI [of _ c3]) simp
qed

text \<open>
  C6, as stated, fails: a build, its deletion, a build that fails for lack of memory and
  a third build give two consecutive successful builds with the report ids 1 and 3.
\<close>

theorem report_id_gap_counterexample:
  "map_sum id fst
     (run_api example_config example_wire
        [Create no_flags malloc_ok (example_statistics [] [] 0) (example_statistics [] [] 0),
         Delete,
         Create no_flags malloc_null (example_statistics [] [] 0) (example_statistics [] [] 0),
         Create no_flags malloc_ok (example_statistics [] [] 0) (example_statistics [] [] 0)]
        initial_collector) =
   Inr [(True, [ScalarSignedInt 1]), (False, [ScalarSignedInt 2]), (True, [ScalarSignedInt 3])]"
proof -
  let ?st = "example_statistics [] [] 0"
  obtain c1 where b1: "AwsIotDefenderInternal_CreateReport example_config example_wire no_flags malloc_ok ?st ?st
      initial_collector = Inr (True, c1)"
    using first_build by blast
  note f1 = CreateReport_Inr(1) [OF b1]
  obtain c2 where b2: "AwsIotDefenderInternal_CreateReport example_config example_wire no_flags malloc_null ?st ?st
      (AwsIotDefenderInternal_DeleteReport c1) = Inr (False, c2)"
    using CreateReport_out_of_memory [of "AwsIotDefenderInternal_DeleteReport c1" no_flags ?st malloc_null
        example_config example_wire ?st]
    by auto
  note f2 = CreateReport_Inr(1,3) [OF b2]
  obtain c3 where b3: "AwsIotDefenderInternal_CreateReport example_config example_wire no_flags malloc_ok ?st ?st
      c2 = Inr (True, c3)"
    using CreateReport_same_statistics [of c2 no_flags ?st malloc_ok example_wire example_config] f2
    by auto
  note f3 = CreateReport_Inr(1) [OF b3]
  show ?thesis
    using b1 b2 b3 f1 f2 f3 by (simp add: header_report_id_eq)
qed



text \<open>
  C8. When the report is unset, the dry pass has completed and the allocator returns
  null for the size it asked for, \<^verbatim>\<open>AwsIotDefenderInternal_CreateReport\<close> returns
  \<open>False\<close> and leaves the report as it is before any build: the buffer pointer null, the size 0, the encoder
  object reset. The entry assertion of a later call holds again.
\<close>

theorem allocation_failure_leaves_report_unset:
  assumes "pDataBuffer (report c) = None" and "size_bytes (report c) = 0"
    and "serialize cfg wire stDry
           (c\<lparr>metricsFlagSnapshot := metricsFlag,
              AwsIotDefenderReportId := AwsIotDefenderReportId c + 1\<rparr>) = Inr cDry"
    and "MallocReport (getExtraBufferSizeNeeded (object (report cDry))) = None"
  shows "\<exists>c'. AwsIotDefenderInternal_CreateReport cfg wire metricsFlag MallocReport stDry stReal c = Inr (False, c') \<and>
              pDataBuffer (report c') = None \<and> size_bytes (report c') = 0 \<and>
              report c' = report initial_collector \<and>
              AwsIotDefenderInternal_GetReportBuffer c' = None \<and> AwsIotDefenderInternal_GetReportBufferSize c' = 0"
proof -
  let ?c2 = "c\<lparr>metricsFlagSnapshot := metricsFlag,
               AwsIotDefenderReportId := AwsIotDefenderReportId c + 1\<rparr>"
  let ?n = "length (wire_bytes wire (fst (serialize_calls cfg stDry ?c2)))"
  have dry: "pDataBuffer (report ?c2) = None" using assms(1) by simp
  have n: "getExtraBufferSizeNeeded (object (report cDry)) = ?n"
    by (rule serialize_dry_size [OF dry assms(3)])
  have m: "MallocReport ?n = None" using assms(4) by (simp add: n)
  have "snd (serialize_calls cfg stDry ?c2) = None"
    by (rule serialize_dry_Inr [OF dry assms(3)])
  then have nt: "metricsFlag AWS_IOT_DEFENDER_METRICS_TASK_RUNTIME_STAT = 0
         \<or> ulTotalTime stDry div 100 \<noteq> 0"
    by (auto simp: serialize_calls_trap split: if_splits)
  from CreateReport_failure
    [where metricsFlag = metricsFlag and MallocReport = MallocReport, OF assms(1,2) nt m]
  show ?thesis
    by (simp add: AwsIotDefenderInternal_GetReportBuffer_def AwsIotDefenderInternal_GetReportBufferSize_def)
qed

theorem allocation_failure_leaves_report_unset_witness:
  "\<exists>cDry c'.
     pDataBuffer (report initial_collector) = None \<and> size_bytes (report initial_collector) = 0 \<and>
     serialize example_config example_wire
       (example_statistics [example_connection]
          [example_task ''IDLE'' 600, example_task ''app'' 400] 1000)
       (initial_collector\<lparr>metricsFlagSnapshot := all_flags,
          AwsIotDefenderReportId := AwsIotDefenderReportId initial_collector + 1\<rparr>) = Inr cDry \<and>
     malloc_null (getExtraBufferSizeNeeded (object (report cDry))) = None \<and>
     AwsIotDefenderInternal_CreateReport example_config example_wire all_flags malloc_null
       (example_statistics [example_connection]
          [example_task ''IDLE'' 600, example_task ''app'' 400] 1000)
       (example_statistics [example_connection]
          [example_task ''IDLE'' 600, example_task ''app'' 400] 1000)
       initial_collector = Inr (False, c') \<and>
     pDataBuffer (report c') = None \<and> size_bytes (report c') = 0 \<and>
     report c' = report initial_collector \<and>
     AwsIotDefenderInternal_GetReportBuffer c' = None \<and> AwsIotDefenderInternal_GetReportBufferSize c' = 0"
proof -
  let ?st = "example_statistics [example_connection]
               [example_task ''IDLE'' 600, example_task ''app'' 400] 1000"
  let ?c2 = "initial_collector\<lparr>metricsFlagSnapshot := all_flags,
           AwsIotDefenderReportId := AwsIotDefenderReportId initial_collector + 1\<rparr>"
  have h1: "pDataBuffer (report initial_collector) = None" by simp
  have h2: "size_bytes (report initial_collector) = 0" by simp
  have "pDataBuffer (report ?c2) = None" by simp
  from dry_pass_completes [OF this, of example_config example_wire ?st]
  obtain cDry where h3: "serialize example_config example_wire ?st ?c2 = Inr cDry"
    by auto
  have h4: "malloc_null (getExtraBufferSizeNeeded (object (report cDry))) = None" by simp
  from allocation_failure_leaves_report_unset
    [where metricsFlag = all_flags and MallocReport = malloc_null and cfg = example_config
       and wire = example_wire and stReal = "?st", OF h1 h2 h3 h4]
    h1 h2 h3 h4
  show ?thesis by blast
qed



text \<open>
  C10. \<^verbatim>\<open>AwsIotDefenderInternal_GetReportBufferSize\<close> is 0 when the buffer pointer is
  null, as in the initial state, after a delete and after a failed build, and the
  encoder's encoded size otherwise. After a successful build that is the number of bytes
  the real pass wrote, never more than the stored size, which is what the dry pass asked
  for; a build whose real pass meets fewer connections than its dry pass returns 8 with
  10 bytes allocated.
\<close>

theorem report_buffer_size_is_encoded_size:
  "(pDataBuffer (report c) = None \<longrightarrow> AwsIotDefenderInternal_GetReportBufferSize c = 0) \<and>
   (pDataBuffer (report c) \<noteq> None \<longrightarrow>
      AwsIotDefenderInternal_GetReportBufferSize c = getEncodedSize (object (report c))) \<and>
   AwsIotDefenderInternal_GetReportBufferSize (AwsIotDefenderInternal_DeleteReport c) = 0 \<and>
   (AwsIotDefenderInternal_CreateReport cfg wire metricsFlag MallocReport stDry stReal c = Inr (ok, c') \<longrightarrow>
      AwsIotDefenderInternal_GetReportBufferSize c' =
        (if ok then length (wire_bytes wire (fst (serialize_calls cfg stReal c'))) else 0) \<and>
      size_bytes (report c') =
        (if ok then length (wire_bytes wire (fst (serialize_calls cfg stDry c'))) else 0) \<and>
      AwsIotDefenderInternal_GetReportBufferSize c' \<le> size_bytes (report c'))"
proof (intro conjI impI)
  assume b: "AwsIotDefenderInternal_CreateReport cfg wire metricsFlag MallocReport stDry stReal c = Inr (ok, c')"
  note f = CreateReport_Inr [OF b]
  show "AwsIotDefenderInternal_GetReportBufferSize c' =
        (if ok then length (wire_bytes wire (fst (serialize_calls cfg stReal c'))) else 0)"
    using f(3,4,6) by (cases ok) (auto simp: AwsIotDefenderInternal_GetReportBufferSize_def getEncodedSize_def)
  show "size_bytes (report c') =
        (if ok then length (wire_bytes wire (fst (serialize_calls cfg stDry c'))) else 0)"
    using f(3,5) by (cases ok) simp_all
  show "AwsIotDefenderInternal_GetReportBufferSize c' \<le> size_bytes (report c')"
    using f(3,4,7) by (cases ok) (auto simp: AwsIotDefenderInternal_GetReportBufferSize_def getEncodedSize_def)
qed (auto simp: AwsIotDefenderInternal_GetReportBufferSize_def)

theorem report_buffer_size_is_encoded_size_witness:
  "pDataBuffer (report initial_collector) = None \<and> AwsIotDefenderInternal_GetReportBufferSize initial_collector = 0 \<and>
   (\<exists>c'. AwsIotDefenderInternal_CreateReport example_config example_wire (tcp_flags 7) malloc_ok
            (example_statistics [example_connection] [] 0) (example_statistics [] [] 0)
            initial_collector = Inr (True, c') \<and>
          pDataBuffer (report c') \<noteq> None \<and>
          AwsIotDefenderInternal_GetReportBufferSize c' = getEncodedSize (object (report c')) \<and>
          AwsIotDefenderInternal_GetReportBufferSize c' = 8 \<and> size_bytes (report c') = 10)"
proof -
  obtain c' where b: "AwsIotDefenderInternal_CreateReport example_config example_wire (tcp_flags 7) malloc_ok
           (example_statistics [example_connection] [] 0) (example_statistics [] [] 0)
           initial_collector = Inr (True, c')"
    using shrinking_build by blast
  note f = CreateReport_Inr(2,4) [OF b]
  have h: "pDataBuffer (report initial_collector) = None" by simp
  from report_buffer_size_is_encoded_size [of initial_collector example_config example_wire
      "tcp_flags 7" malloc_ok "example_statistics [example_connection] [] 0"
      "example_statistics [] [] 0" True c'] b h
  have "AwsIotDefenderInternal_GetReportBufferSize initial_collector = 0"
    and "AwsIotDefenderInternal_GetReportBufferSize c' = 8" and "size_bytes (report c') = 10"
    by (simp_all add: example_tcp_sizes f)
  moreover from report_buffer_size_is_encoded_size [of c'] f
  have "AwsIotDefenderInternal_GetReportBufferSize c' = getEncodedSize (object (report c'))" by simp
  ultimately show ?thesis using b h f by blast
qed

end
